theory Spec2Isabelle
  imports Complex_Main
begin

section \<open>Numbers, vectors and engine constants\<close>

text \<open>
  The C++ type \<open>float\<close> is modelled by \<open>real\<close>: arithmetic is exact, rounding and NaN are
  not represented.  The two infinities that the movement component stores in
  \<open>TurnInPlaceTargetYaw\<close> are modelled by the type \<open>efloat\<close> further down.

  Functions and constants of the game engine that the sources call (\<open>FMath\<close>, \<open>FVector\<close>,
  \<open>KINDA_SMALL_NUMBER\<close>, ...) are written out here with their mathematical meaning.
\<close>

datatype FVector = FVector (X: real) (Y: real) (Z: real)

definition ZeroVector :: FVector where
  "ZeroVector = FVector 0 0 0"

definition SMALL_NUMBER :: real where
  "SMALL_NUMBER = 1 / 100000000"

definition KINDA_SMALL_NUMBER :: real where
  "KINDA_SMALL_NUMBER = 1 / 10000"

definition DotProduct :: "FVector \<Rightarrow> FVector \<Rightarrow> real" where
  "DotProduct a b = X a * X b + Y a * Y b + Z a * Z b"

definition SizeSquared :: "FVector \<Rightarrow> real" where
  "SizeSquared v = X v * X v + Y v * Y v + Z v * Z v"

definition SizeSquared2D :: "FVector \<Rightarrow> real" where
  "SizeSquared2D v = X v * X v + Y v * Y v"

definition Size :: "FVector \<Rightarrow> real" where
  "Size v = sqrt (SizeSquared v)"

definition IsZero :: "FVector \<Rightarrow> bool" where
  "IsZero v \<longleftrightarrow> X v = 0 \<and> Y v = 0 \<and> Z v = 0"

definition VScale :: "real \<Rightarrow> FVector \<Rightarrow> FVector" where
  "VScale k v = FVector (k * X v) (k * Y v) (k * Z v)"

definition VAdd :: "FVector \<Rightarrow> FVector \<Rightarrow> FVector" where
  "VAdd a b = FVector (X a + X b) (Y a + Y b) (Z a + Z b)"

definition VSub :: "FVector \<Rightarrow> FVector \<Rightarrow> FVector" where
  "VSub a b = FVector (X a - X b) (Y a - Y b) (Z a - Z b)"

text \<open>\<open>FVector::GetSafeNormal\<close> and \<open>FVector::GetSafeNormal2D\<close> with the default tolerance.\<close>

definition GetSafeNormal :: "FVector \<Rightarrow> FVector" where
  "GetSafeNormal v =
     (let SquareSum = SizeSquared v in
      if SquareSum = 1 then v
      else if SquareSum < SMALL_NUMBER then ZeroVector
      else VScale (1 / sqrt SquareSum) v)"

definition GetSafeNormal2D :: "FVector \<Rightarrow> FVector" where
  "GetSafeNormal2D v =
     (let SquareSum = SizeSquared2D v in
      if SquareSum = 1 then FVector (X v) (Y v) 0
      else if SquareSum < SMALL_NUMBER then ZeroVector
      else FVector (X v * (1 / sqrt SquareSum)) (Y v * (1 / sqrt SquareSum)) 0)"

definition Lerp :: "real \<Rightarrow> real \<Rightarrow> real \<Rightarrow> real" where
  "Lerp A B Alpha = A + Alpha * (B - A)"

definition Clamp :: "real \<Rightarrow> real \<Rightarrow> real \<Rightarrow> real" where
  "Clamp x MinV MaxV = (if x < MinV then MinV else if x < MaxV then x else MaxV)"

text \<open>\<open>FMath::GetRangePct\<close>: a range that is a point answers whether the value is before or
  after it.\<close>

definition GetRangePct :: "real \<Rightarrow> real \<Rightarrow> real \<Rightarrow> real" where
  "GetRangePct MinValue MaxValue Value =
     (let Divisor = MaxValue - MinValue in
      if \<bar>Divisor\<bar> \<le> SMALL_NUMBER then (if Value \<ge> MaxValue then 1 else 0)
      else (Value - MinValue) / Divisor)"

definition GetRangeValue :: "real \<Rightarrow> real \<Rightarrow> real \<Rightarrow> real" where
  "GetRangeValue RangeMin RangeMax Pct = Lerp RangeMin RangeMax Pct"

definition GetMappedRangeValueUnclamped ::
  "real \<Rightarrow> real \<Rightarrow> real \<Rightarrow> real \<Rightarrow> real \<Rightarrow> real" where
  "GetMappedRangeValueUnclamped InMin InMax OutMin OutMax Value =
     GetRangeValue OutMin OutMax (GetRangePct InMin InMax Value)"

datatype EMovementMode =
  MOVE_None | MOVE_Walking | MOVE_NavWalking | MOVE_Falling | MOVE_Swimming | MOVE_Flying
  | MOVE_Custom

datatype ECardinalDirection = North | East | South | West


section \<open>Animation instance (ExtCharacterAnimInstance.cpp)\<close>

text \<open>The members of \<open>UExtCharacterAnimInstance\<close> that \<open>NativeUpdateGaitScale\<close> and
  \<open>NativeUpdatePivotTurn\<close> read or write.  Members whose names also occur in the movement
  component carry the prefix \<open>Anim_\<close>.\<close>

record anim_instance =
  Anim_bIsMoving2D :: bool
  Anim_MovementMode :: EMovementMode
  Anim_bIsCrouched :: bool
  GroundSpeed :: real
  WalkSpeed :: real
  RunSpeed :: real
  SprintSpeed :: real
  WalkSpeedCrouched :: real
  RunSpeedCrouched :: real
  AnimWalkSpeed :: real
  AnimRunSpeed :: real
  AnimSprintSpeed :: real
  AnimWalkSpeedCrouched :: real
  AnimRunSpeedCrouched :: real
  SlopeWalkSpeedScale :: real
  SlopeRunSpeedScale :: real
  GaitScale :: real
  GaitScaleCrouched :: real
  PlayRateWalk :: real
  PlayRateWalkCrouched :: real
  SpeedWarpScale :: real
  Anim_Velocity :: FVector
  Anim_MovementDrift :: real
  bWasPivotTurning :: bool
  Anim_bIsPivotTurning :: bool
  PivotTurnDirection :: ECardinalDirection

subsection \<open>NativeUpdatePivotTurn\<close>

text \<open>The nested \<open>if\<close> of lines 369-386, which buckets \<open>MovementDrift\<close>.\<close>

definition PivotTurnDirectionOf :: "real \<Rightarrow> ECardinalDirection" where
  "PivotTurnDirectionOf Drift =
     (if Drift > 0 then
        (if Drift < 50 then North else if Drift > 130 then South else East)
      else
        (if Drift > - 50 then North else if Drift < - 130 then South else West))"

text \<open>\<open>MovementIsPivotTurning\<close> is the value of \<open>CharacterOwnerMovement->IsPivotTurning()\<close>.\<close>

definition NativeUpdatePivotTurn :: "anim_instance \<Rightarrow> bool \<Rightarrow> FVector \<Rightarrow> anim_instance" where
  "NativeUpdatePivotTurn s MovementIsPivotTurning InLastVelocity =
     (let s1 = s\<lparr>bWasPivotTurning := Anim_bIsPivotTurning s\<rparr>;
          s2 = s1\<lparr>Anim_bIsPivotTurning := MovementIsPivotTurning\<rparr>;
          bIsPivotTurningInstantly =
            (if \<not> Anim_bIsPivotTurning s2
             then DotProduct (GetSafeNormal2D InLastVelocity) (GetSafeNormal2D (Anim_Velocity s2))
                    < - (173648 / 1000000)
             else False)
      in if bIsPivotTurningInstantly \<or> (\<not> bWasPivotTurning s2 \<and> Anim_bIsPivotTurning s2)
         then s2\<lparr>PivotTurnDirection := PivotTurnDirectionOf (Anim_MovementDrift s2)\<rparr>
         else s2)"

text \<open>The update classifies when a pivot turn starts: either the movement component raises its
  flag, or the velocity turned by more than 100 degrees since the last frame.\<close>

definition PivotTurnStarts :: "anim_instance \<Rightarrow> bool \<Rightarrow> FVector \<Rightarrow> bool" where
  "PivotTurnStarts s MovementIsPivotTurning InLastVelocity \<longleftrightarrow>
     (\<not> Anim_bIsPivotTurning s \<and> MovementIsPivotTurning)
     \<or> (\<not> MovementIsPivotTurning
        \<and> DotProduct (GetSafeNormal2D InLastVelocity) (GetSafeNormal2D (Anim_Velocity s))
            < - (173648 / 1000000))"

subsection \<open>NativeUpdateGaitScale\<close>

text \<open>The local constants \<open>PlayRateDeviation\<close> and \<open>SpeedWarpDeviation\<close> (lines 276-278 for
  the crouched character, 321-323 for the standing one), as functions of \<open>Deviation\<close>.\<close>

definition PlayRateDeviation :: "real \<Rightarrow> real" where
  "PlayRateDeviation Deviation = max (- (15 / 100)) Deviation"

definition SpeedWarpDeviation :: "real \<Rightarrow> real" where
  "SpeedWarpDeviation Deviation = max (- (85 / 100)) (Deviation - PlayRateDeviation Deviation)"

text \<open>Lines 274-287 and 319-332: the play rate and \<open>NewSpeedWarpScale\<close> for an
  \<open>AnimSpeedScale\<close>.\<close>

definition PlayRateAndSpeedWarp :: "real \<Rightarrow> real \<times> real" where
  "PlayRateAndSpeedWarp AnimSpeedScale =
     (if AnimSpeedScale < 1 then
        (let Deviation = AnimSpeedScale - 1
         in (1 + PlayRateDeviation Deviation, 1 + SpeedWarpDeviation Deviation))
      else (2 / 10 * AnimSpeedScale + 8 / 10, 8 / 10 * AnimSpeedScale + 2 / 10))"

text \<open>Lines 253-272: \<open>GaitScaleCrouched\<close>, \<open>AnimSpeedScale\<close> and \<open>SlopeSpeedScale\<close> of a
  crouched character.\<close>

definition CrouchedGait :: "anim_instance \<Rightarrow> real \<times> real \<times> real" where
  "CrouchedGait s =
     (if GroundSpeed s \<le> WalkSpeedCrouched s then
        (GetRangePct 0 (WalkSpeedCrouched s) (GroundSpeed s),
         GroundSpeed s / AnimWalkSpeedCrouched s,
         SlopeWalkSpeedScale s)
      else if GroundSpeed s \<le> RunSpeedCrouched s then
        (let Alpha = GetRangePct (WalkSpeedCrouched s) (RunSpeedCrouched s) (GroundSpeed s)
         in (1 + Alpha,
             GroundSpeed s / Lerp (AnimWalkSpeedCrouched s) (AnimRunSpeedCrouched s) Alpha,
             SlopeRunSpeedScale s))
      else
        (2, GroundSpeed s / AnimRunSpeedCrouched s, SlopeRunSpeedScale s))"

text \<open>Lines 291-317: \<open>GaitScale\<close>, \<open>AnimSpeedScale\<close> and \<open>SlopeSpeedScale\<close> of a standing
  character.\<close>

definition StandingGait :: "anim_instance \<Rightarrow> real \<times> real \<times> real" where
  "StandingGait s =
     (if GroundSpeed s \<le> WalkSpeed s then
        (GetRangePct 0 (WalkSpeed s) (GroundSpeed s),
         GroundSpeed s / AnimWalkSpeed s,
         SlopeWalkSpeedScale s)
      else if GroundSpeed s \<le> RunSpeed s then
        (let Alpha = GetRangePct (WalkSpeed s) (RunSpeed s) (GroundSpeed s)
         in (1 + Alpha,
             GroundSpeed s / Lerp (AnimWalkSpeed s) (AnimRunSpeed s) Alpha,
             SlopeRunSpeedScale s))
      else if GroundSpeed s \<le> SprintSpeed s then
        (let Alpha = GetRangePct (RunSpeed s) (SprintSpeed s) (GroundSpeed s)
         in (2 + Alpha,
             GroundSpeed s / Lerp (AnimRunSpeed s) (AnimSprintSpeed s) Alpha,
             SlopeRunSpeedScale s))
      else
        (3, GroundSpeed s / AnimSprintSpeed s, SlopeRunSpeedScale s))"

text \<open>What the update reads from \<open>CharacterOwnerMovement->CurrentFloor\<close>.\<close>

record floor_result =
  FloorNormalZ :: real
  ContactNormalZ :: real
  bHitFromLineTrace :: bool
  bIsWalkable :: bool

text \<open>\<open>FSafeInterpTo\<close> stands for \<open>FMathEx::FSafeInterpTo\<close>, which is not part of these
  sources; the update hands it the current and the new speed warp scale.\<close>

definition NativeUpdateGaitScale ::
  "(real \<Rightarrow> real \<Rightarrow> real \<Rightarrow> real \<Rightarrow> real) \<Rightarrow> floor_result \<Rightarrow> anim_instance \<Rightarrow> real
     \<Rightarrow> anim_instance" where
  "NativeUpdateGaitScale FSafeInterpTo RampHit s DeltaSeconds =
     (if Anim_bIsMoving2D s then
        (if Anim_MovementMode s = MOVE_Walking \<or> Anim_MovementMode s = MOVE_NavWalking then
           (let (s1, NewSpeedWarpScale, SlopeSpeedScale) =
                  (if Anim_bIsCrouched s then
                     (let (G, AnimSpeedScale, Slope) = CrouchedGait s;
                          (PlayRate, Warp) = PlayRateAndSpeedWarp AnimSpeedScale
                      in (s\<lparr>GaitScaleCrouched := G, PlayRateWalkCrouched := PlayRate\<rparr>,
                          Warp, Slope))
                   else
                     (let (G, AnimSpeedScale, Slope) = StandingGait s;
                          (PlayRate, Warp) = PlayRateAndSpeedWarp AnimSpeedScale
                      in (s\<lparr>GaitScale := G, PlayRateWalk := PlayRate\<rparr>, Warp, Slope)));
                s2 = (if FloorNormalZ RampHit < 1 - KINDA_SMALL_NUMBER
                         \<and> FloorNormalZ RampHit > KINDA_SMALL_NUMBER
                         \<and> ContactNormalZ RampHit > KINDA_SMALL_NUMBER
                         \<and> \<not> bHitFromLineTrace RampHit
                         \<and> bIsWalkable RampHit
                      then s1\<lparr>PlayRateWalk :=
                                PlayRateWalk s1 * Lerp SlopeSpeedScale 1 (FloorNormalZ RampHit)\<rparr>
                      else s1)
            in s2\<lparr>SpeedWarpScale :=
                     FSafeInterpTo (SpeedWarpScale s2) NewSpeedWarpScale DeltaSeconds
                       (GetMappedRangeValueUnclamped 1 3 100 10 (GaitScale s2))\<rparr>)
         else s)
      else s)"

text \<open>The values the constructor gives the members (lines 29-55); the members it does not
  set start at zero.\<close>

definition AnimInstanceDefaults :: anim_instance where
  "AnimInstanceDefaults =
     \<lparr>Anim_bIsMoving2D = False, Anim_MovementMode = MOVE_None, Anim_bIsCrouched = False,
      GroundSpeed = 0,
      WalkSpeed = 165, RunSpeed = 375, SprintSpeed = 600,
      WalkSpeedCrouched = 150, RunSpeedCrouched = 200,
      AnimWalkSpeed = 150, AnimRunSpeed = 375, AnimSprintSpeed = 600,
      AnimWalkSpeedCrouched = 150, AnimRunSpeedCrouched = 150,
      SlopeWalkSpeedScale = 1, SlopeRunSpeedScale = 1,
      GaitScale = 0, GaitScaleCrouched = 0,
      PlayRateWalk = 1, PlayRateWalkCrouched = 1,
      SpeedWarpScale = 1,
      Anim_Velocity = ZeroVector, Anim_MovementDrift = 0,
      bWasPivotTurning = False, Anim_bIsPivotTurning = False,
      PivotTurnDirection = North\<rparr>"

subsection \<open>The ground speed that NativeUpdateGaitScale reads\<close>

text \<open>Lines 131 and 136 of \<open>NativeUpdateAnimation\<close>, which runs before the call of
  \<open>NativeUpdateGaitScale\<close> (line 230): \<open>GroundSpeed = Velocity.Size2D()\<close> and
  \<open>bIsMoving2D = GroundSpeed > 0.01f\<close>.  The first argument is the value of
  \<open>Velocity.Size2D()\<close>.\<close>

definition NativeUpdateAnimation_GroundSpeed :: "real \<Rightarrow> anim_instance \<Rightarrow> anim_instance" where
  "NativeUpdateAnimation_GroundSpeed Size2D s =
     s\<lparr>GroundSpeed := Size2D, Anim_bIsMoving2D := (Size2D > 1 / 100)\<rparr>"

subsection \<open>Example inputs\<close>

text \<open>An interpolation that reaches its target at once, a level floor, and the default
  animation instance of a character that walks, standing or crouched.\<close>

definition InterpToTarget :: "real \<Rightarrow> real \<Rightarrow> real \<Rightarrow> real \<Rightarrow> real" where
  "InterpToTarget Current Target DeltaTime InterpSpeed = Target"

definition FlatFloor :: floor_result where
  "FlatFloor = \<lparr>FloorNormalZ = 1, ContactNormalZ = 1, bHitFromLineTrace = False, bIsWalkable = True\<rparr>"

definition WalkingAnimInstance :: anim_instance where
  "WalkingAnimInstance = AnimInstanceDefaults\<lparr>Anim_bIsMoving2D := True, Anim_MovementMode := MOVE_Walking\<rparr>"

definition CrouchingAnimInstance :: anim_instance where
  "CrouchingAnimInstance = WalkingAnimInstance\<lparr>Anim_bIsCrouched := True\<rparr>"

text \<open>The walking character after an update at the sprint speed of 600.\<close>

definition SprintedAnimInstance :: anim_instance where
  "SprintedAnimInstance =
     NativeUpdateGaitScale InterpToTarget FlatFloor
       (NativeUpdateAnimation_GroundSpeed 600 WalkingAnimInstance) (1 / 60)"

section \<open>Movement component (ExtCharacterMovementComponent.cpp)\<close>

subsection \<open>Engine types and functions the component uses\<close>

datatype FRotator = FRotator (Pitch: real) (Yaw: real) (Roll: real)

datatype ENetRole = ROLE_None | ROLE_SimulatedProxy | ROLE_AutonomousProxy | ROLE_Authority

fun RoleRank :: "ENetRole \<Rightarrow> nat" where
  "RoleRank ROLE_None = 0"
| "RoleRank ROLE_SimulatedProxy = 1"
| "RoleRank ROLE_AutonomousProxy = 2"
| "RoleRank ROLE_Authority = 3"

text \<open>A \<open>float\<close> that may be one of the two infinities.\<close>

datatype efloat = Finite real | PosInfinity | NegInfinity

fun IsFinite :: "efloat \<Rightarrow> bool" where
  "IsFinite (Finite x) = True"
| "IsFinite PosInfinity = False"
| "IsFinite NegInfinity = False"

fun IsNegative :: "efloat \<Rightarrow> bool" where
  "IsNegative (Finite x) = (x < 0)"
| "IsNegative PosInfinity = False"
| "IsNegative NegInfinity = True"

definition MIN_TICK_TIME :: real where
  "MIN_TICK_TIME = 1 / 1000000"

definition BRAKE_TO_STOP_VELOCITY :: real where
  "BRAKE_TO_STOP_VELOCITY = 10"

definition Square :: "real \<Rightarrow> real" where
  "Square x = x * x"

definition DegreesToRadians :: "real \<Rightarrow> real" where
  "DegreesToRadians d = d * (pi / 180)"

text \<open>\<open>FMath::InterpEaseIn\<close> with a whole exponent.\<close>

definition InterpEaseIn :: "real \<Rightarrow> real \<Rightarrow> real \<Rightarrow> nat \<Rightarrow> real" where
  "InterpEaseIn A B Alpha Exp = Lerp A B (Alpha ^ Exp)"

definition FindDeltaAngleDegrees :: "real \<Rightarrow> real \<Rightarrow> real" where
  "FindDeltaAngleDegrees A1 A2 =
     (let Delta = A2 - A1 in
      if Delta > 180 then Delta - 360
      else if Delta < - 180 then Delta + 360
      else Delta)"

text \<open>\<open>FRotator::ClampAxis\<close> brings an angle into [0,360), \<open>FRotator::NormalizeAxis\<close> into
  (-180,180].\<close>

definition ClampAxis :: "real \<Rightarrow> real" where
  "ClampAxis Angle = Angle - 360 * of_int \<lfloor>Angle / 360\<rfloor>"

definition NormalizeAxis :: "real \<Rightarrow> real" where
  "NormalizeAxis Angle = (let A = ClampAxis Angle in if A > 180 then A - 360 else A)"

text \<open>\<open>FMath::UnwindDegrees\<close> subtracts 360 while the angle is above 180, then adds 360 while
  it is below -180; the number of rounds is written with a ceiling.\<close>

definition UnwindDegrees :: "real \<Rightarrow> real" where
  "UnwindDegrees A =
     (if A > 180 then A - 360 * of_int \<lceil>(A - 180) / 360\<rceil>
      else if A < - 180 then A + 360 * of_int \<lceil>(- 180 - A) / 360\<rceil>
      else A)"

definition RotatorEquals :: "FRotator \<Rightarrow> FRotator \<Rightarrow> real \<Rightarrow> bool" where
  "RotatorEquals A B Tolerance \<longleftrightarrow>
     \<bar>NormalizeAxis (Pitch A - Pitch B)\<bar> \<le> Tolerance
     \<and> \<bar>NormalizeAxis (Yaw A - Yaw B)\<bar> \<le> Tolerance
     \<and> \<bar>NormalizeAxis (Roll A - Roll B)\<bar> \<le> Tolerance"

text \<open>Division of C++ \<open>int32\<close> values truncates towards zero.\<close>

definition IntDivide :: "int \<Rightarrow> int \<Rightarrow> int" where
  "IntDivide a b = sgn a * sgn b * (\<bar>a\<bar> div \<bar>b\<bar>)"

subsection \<open>State\<close>

text \<open>Calls the component makes on its owning character.\<close>

datatype notification =
  OnStartWalk | OnEndWalk | OnStartSprint | OnEndSprint
  | OnStartGenericAction | OnEndGenericAction | OnUpdateBeforeMovement

text \<open>A failed \<open>check\<close> and the use of a null \<open>ExtCharacterOwner\<close> end a call.\<close>

datatype error = CheckFailed | NullDereference

text \<open>
  The members of \<open>UExtCharacterMovementComponent\<close> (its own, the inherited ones, and what it
  reads from its owner, its updated component and its physics volume) that the functions
  below use.  \<open>bUpdatedComponent\<close>, \<open>bCharacterOwner\<close> and \<open>bExtCharacterOwner\<close> say
  whether the pointer of that name is valid; \<open>bIsRagdoll\<close>, \<open>bIsGettingUp\<close> and
  \<open>bIsLanding\<close> are the answers of the owner's \<open>IsRagdoll()\<close>, \<open>IsGettingUp()\<close> and
  \<open>IsLanding()\<close>; \<open>Notifications\<close> records the calls made on the owner, oldest first.
\<close>

record movement_component =
  bUpdatedComponent :: bool
  bCharacterOwner :: bool
  bExtCharacterOwner :: bool
  LocalRole :: ENetRole
  bIsReplicated :: bool
  bHasController :: bool
  MovementMode :: EMovementMode
  Velocity :: FVector
  Acceleration :: FVector
  ForwardVector :: FVector
  ActorRotation :: FRotator
  bIsCrouched :: bool
  bIsRagdoll :: bool
  bIsGettingUp :: bool
  bIsLanding :: bool
  bIsJumping :: bool
  bIsWalkingInsteadOfRunning :: bool
  bIsSprinting :: bool
  bIsPerformingGenericAction :: bool
  bWantsToWalkInsteadOfRun :: bool
  bWantsToSprint :: bool
  bWantsToPerformGenericAction :: bool
  bCanWalkInsteadOfRun :: bool
  bCanSprint :: bool
  bCanPerformGenericAction :: bool
  MaxSprintAngle :: real
  LastMovementAcceleration :: FVector
  LastMovementVelocity :: FVector
  LastAcceleratedVelocity :: FVector
  bIsPivotTurning :: bool
  bEnablePivotTurn :: bool
  PivotTurnMinSpeed :: real
  PivotTurnAccelerationFactor :: "real \<times> real"
  PivotTurnFrictionFactor :: "real \<times> real"
  MaxAcceleration :: real
  GroundFriction :: real
  MaxWalkAcceleration :: real
  WalkFriction :: real
  MaxFallingAcceleration :: real
  MaxSwimAcceleration :: real
  MaxFlyAcceleration :: real
  MaxFallingGroundSpeed :: real
  RotationOffset :: real
  FallRotation :: FRotator
  LookCardinalDirection :: ECardinalDirection
  bHasAnimRootMotion :: bool
  bHasRootMotionSources :: bool
  BrakingFrictionFactor :: real
  BrakingFrictionFactorRagdoll :: real
  BrakingFrictionFactorLanding :: real
  BrakingDecelerationWalking :: real
  BrakingDecelerationFalling :: real
  BrakingDecelerationSwimming :: real
  BrakingDecelerationFlying :: real
  BrakingDecelerationRagdoll :: real
  BrakingDecelerationLanding :: real
  BrakingSpeedTolerance :: real
  bUseSeparateBrakingFriction :: bool
  BrakingFriction :: real
  FluidFriction :: real
  ComponentLocation :: FVector
  bRunPhysicsWithNoController :: bool
  bOrientRotationToMovement :: bool
  bUseControllerDesiredRotation :: bool
  bCanRotateWhileJumping :: bool
  bEnableTurnInPlace :: bool
  bUseTurnInPlaceDelay :: bool
  TurnInPlaceDelay :: real
  TurnInPlaceMaxDistance :: real
  TurnInPlaceTargetYaw :: efloat
  TurnInPlaceTimeCounter :: real
  LookAngleThreshold :: real
  ControlRotationMaxDistance :: real
  bCanEnforceTurnInPlaceRotationMaxDistance :: bool
  bCanEnforceControlRotationMaxDistance :: bool
  RotationRateFactor :: real
  Notifications :: "notification list"

definition AngleTolerance :: real where
  "AngleTolerance = 1 / 1000"

definition Notify :: "notification \<Rightarrow> movement_component \<Rightarrow> movement_component" where
  "Notify n s = s\<lparr>Notifications := Notifications s @ [n]\<rparr>"

text \<open>\<open>HasValidData\<close> and \<open>IsMovingOnGround\<close> of the engine's base class.\<close>

definition HasValidData :: "movement_component \<Rightarrow> bool" where
  "HasValidData s \<longleftrightarrow> bUpdatedComponent s \<and> bCharacterOwner s"

definition IsMovingOnGround :: "movement_component \<Rightarrow> bool" where
  "IsMovingOnGround s \<longleftrightarrow>
     (MovementMode s = MOVE_Walking \<or> MovementMode s = MOVE_NavWalking) \<and> bUpdatedComponent s"

text \<open>\<open>checkComponentRoleAtLeast(ROLE_AutonomousProxy)\<close>.\<close>

definition RoleAtLeastAutonomousProxy :: "movement_component \<Rightarrow> bool" where
  "RoleAtLeastAutonomousProxy s \<longleftrightarrow> RoleRank (LocalRole s) \<ge> RoleRank ROLE_AutonomousProxy"

subsection \<open>Walk, sprint and generic action\<close>

definition CanWalkInCurrentState :: "movement_component \<Rightarrow> bool" where
  "CanWalkInCurrentState s \<longleftrightarrow> bCanWalkInsteadOfRun s"

definition CanSprintInCurrentState :: "movement_component \<Rightarrow> bool" where
  "CanSprintInCurrentState s \<longleftrightarrow>
     bCanSprint s
     \<and> IsMovingOnGround s
     \<and> bExtCharacterOwner s
     \<and> \<not> bIsRagdoll s
     \<and> \<not> bIsGettingUp s
     \<and> \<not> bIsCrouched s
     \<and> SizeSquared2D (Velocity s) > KINDA_SMALL_NUMBER
     \<and> (MaxSprintAngle s \<le> 0
        \<or> DotProduct (GetSafeNormal2D (Acceleration s)) (ForwardVector s)
             \<ge> cos (DegreesToRadians (MaxSprintAngle s)))"

definition CanPerformGenericActionInCurrentState :: "movement_component \<Rightarrow> bool" where
  "CanPerformGenericActionInCurrentState s \<longleftrightarrow>
     bCanPerformGenericAction s
     \<and> MovementMode s \<noteq> MOVE_None \<and> MovementMode s \<noteq> MOVE_Falling
     \<and> bExtCharacterOwner s
     \<and> \<not> bIsSprinting s
     \<and> \<not> bIsRagdoll s
     \<and> \<not> bIsGettingUp s"

definition Walk :: "bool \<Rightarrow> movement_component \<Rightarrow> error + movement_component" where
  "Walk bClientSimulation s =
     (if \<not> HasValidData s then Inr s
      else if \<not> (bClientSimulation \<or> CanWalkInCurrentState s) then Inl CheckFailed
      else if bExtCharacterOwner s then
        Inr (Notify OnStartWalk
              (if \<not> bClientSimulation then s\<lparr>bIsWalkingInsteadOfRunning := True\<rparr> else s))
      else Inr s)"

definition UnWalk :: "bool \<Rightarrow> movement_component \<Rightarrow> error + movement_component" where
  "UnWalk bClientSimulation s =
     (if \<not> HasValidData s then Inr s
      else if bExtCharacterOwner s then
        Inr (Notify OnEndWalk
              (if \<not> bClientSimulation then s\<lparr>bIsWalkingInsteadOfRunning := False\<rparr> else s))
      else Inr s)"

definition Sprint :: "bool \<Rightarrow> movement_component \<Rightarrow> error + movement_component" where
  "Sprint bClientSimulation s =
     (if \<not> HasValidData s then Inr s
      else if \<not> (bClientSimulation \<or> CanSprintInCurrentState s) then Inl CheckFailed
      else if bExtCharacterOwner s then
        Inr (Notify OnStartSprint
              (if \<not> bClientSimulation then s\<lparr>bIsSprinting := True\<rparr> else s))
      else Inr s)"

definition UnSprint :: "bool \<Rightarrow> movement_component \<Rightarrow> error + movement_component" where
  "UnSprint bClientSimulation s =
     (if \<not> HasValidData s then Inr s
      else if bExtCharacterOwner s then
        Inr (Notify OnEndSprint
              (if \<not> bClientSimulation then s\<lparr>bIsSprinting := False\<rparr> else s))
      else Inr s)"

definition PerformGenericAction :: "bool \<Rightarrow> movement_component \<Rightarrow> error + movement_component" where
  "PerformGenericAction bClientSimulation s =
     (if \<not> HasValidData s then Inr s
      else if \<not> (bClientSimulation \<or> CanPerformGenericActionInCurrentState s) then Inl CheckFailed
      else if bExtCharacterOwner s then
        Inr (Notify OnStartGenericAction
              (if \<not> bClientSimulation then s\<lparr>bIsPerformingGenericAction := True\<rparr> else s))
      else Inr s)"

definition UnPerformGenericAction :: "bool \<Rightarrow> movement_component \<Rightarrow> error + movement_component" where
  "UnPerformGenericAction bClientSimulation s =
     (if \<not> HasValidData s then Inr s
      else if bExtCharacterOwner s then
        Inr (Notify OnEndGenericAction
              (if \<not> bClientSimulation then s\<lparr>bIsPerformingGenericAction := False\<rparr> else s))
      else Inr s)"

subsection \<open>UpdateCharacterStateBeforeMovement and OnMovementModeChanged\<close>

definition bind_result :: "error + 'a \<Rightarrow> ('a \<Rightarrow> error + 'b) \<Rightarrow> error + 'b" where
  "bind_result r f = (case r of Inl e \<Rightarrow> Inl e | Inr x \<Rightarrow> f x)"

text \<open>Lines 1299-1308.\<close>

definition UpdateWalkState :: "movement_component \<Rightarrow> error + movement_component" where
  "UpdateWalkState s =
     (let bAllowedToWalk = CanWalkInCurrentState s in
      if (\<not> bAllowedToWalk \<or> \<not> bWantsToWalkInsteadOfRun s) \<and> bIsWalkingInsteadOfRunning s
      then UnWalk False s
      else if bAllowedToWalk \<and> bWantsToWalkInsteadOfRun s \<and> \<not> bIsWalkingInsteadOfRunning s
      then Walk False s
      else Inr s)"

text \<open>Lines 1310-1319.\<close>

definition UpdatePerformGenericActionState :: "movement_component \<Rightarrow> error + movement_component" where
  "UpdatePerformGenericActionState s =
     (let bAllowedToPerformGenericAction = CanPerformGenericActionInCurrentState s in
      if (\<not> bAllowedToPerformGenericAction \<or> \<not> bWantsToPerformGenericAction s)
         \<and> bIsPerformingGenericAction s
      then UnPerformGenericAction False s
      else if bAllowedToPerformGenericAction \<and> bWantsToPerformGenericAction s
              \<and> \<not> bIsPerformingGenericAction s
      then PerformGenericAction False s
      else Inr s)"

text \<open>Lines 1321-1330.\<close>

definition UpdateSprintState :: "movement_component \<Rightarrow> error + movement_component" where
  "UpdateSprintState s =
     (let bAllowedToSprint = CanSprintInCurrentState s in
      if (\<not> bAllowedToSprint \<or> \<not> bWantsToSprint s) \<and> bIsSprinting s
      then UnSprint False s
      else if bAllowedToSprint \<and> bWantsToSprint s \<and> \<not> bIsSprinting s
      then Sprint False s
      else Inr s)"

text \<open>The local constant \<open>MovementDeflection\<close> of line 1343.\<close>

definition MovementDeflection :: "movement_component \<Rightarrow> real" where
  "MovementDeflection s =
     DotProduct (GetSafeNormal2D (LastMovementAcceleration s))
                (GetSafeNormal2D (LastMovementVelocity s))"

text \<open>Lines 1376-1379, reached unless the code jumps to \<open>SkipPivotTurnAdjusts\<close>.\<close>

definition PivotTurnAdjusts :: "movement_component \<Rightarrow> movement_component" where
  "PivotTurnAdjusts s =
     (let Alpha = InterpEaseIn 0 1
                    (Clamp (GetRangePct (- (6427870 / 10000000)) 0 (MovementDeflection s)) 0 1) 3
      in s\<lparr>MaxAcceleration :=
              MaxAcceleration s
                * GetRangeValue (fst (PivotTurnAccelerationFactor s))
                    (snd (PivotTurnAccelerationFactor s)) Alpha,
            GroundFriction :=
              GroundFriction s
                * GetRangeValue (fst (PivotTurnFrictionFactor s))
                    (snd (PivotTurnFrictionFactor s)) Alpha\<rparr>)"

text \<open>The \<open>switch\<close> of lines 1332-1397.\<close>

definition UpdateAccelerationAndFriction :: "movement_component \<Rightarrow> movement_component" where
  "UpdateAccelerationAndFriction s =
     (if MovementMode s = MOVE_Walking \<or> MovementMode s = MOVE_NavWalking then
        (let s1 = s\<lparr>MaxAcceleration := MaxWalkAcceleration s, GroundFriction := WalkFriction s\<rparr>
         in if bIsPivotTurning s1 then
              (if MovementDeflection s1 > 7071068 / 10000000
                  \<or> (\<not> (SizeSquared2D (Acceleration s1) > KINDA_SMALL_NUMBER)
                      \<and> \<not> (SizeSquared2D (Velocity s1) > KINDA_SMALL_NUMBER))
               then s1\<lparr>bIsPivotTurning := False\<rparr>
               else PivotTurnAdjusts s1)
            else if bEnablePivotTurn s1
                    \<and> MovementDeflection s1 < - (173648 / 1000000)
                    \<and> SizeSquared2D (LastAcceleratedVelocity s1) > Square (PivotTurnMinSpeed s1)
                    \<and> \<not> bIsLanding s1
                    \<and> \<not> bIsGettingUp s1
                    \<and> \<not> bIsRagdoll s1
            then PivotTurnAdjusts (s1\<lparr>bIsPivotTurning := True\<rparr>)
            else s1)
      else if MovementMode s = MOVE_Falling then s\<lparr>MaxAcceleration := MaxFallingAcceleration s\<rparr>
      else if MovementMode s = MOVE_Swimming then s\<lparr>MaxAcceleration := MaxSwimAcceleration s\<rparr>
      else if MovementMode s = MOVE_Flying then s\<lparr>MaxAcceleration := MaxFlyAcceleration s\<rparr>
      else s\<lparr>MaxAcceleration := 0\<rparr>)"

text \<open>The function starts with the inherited \<open>Super::UpdateCharacterStateBeforeMovement\<close>
  (crouching, engine code); the argument is the state that call leaves.\<close>

definition UpdateCharacterStateBeforeMovement ::
  "movement_component \<Rightarrow> error + movement_component" where
  "UpdateCharacterStateBeforeMovement s =
     (if \<not> RoleAtLeastAutonomousProxy s then Inl CheckFailed
      else if \<not> bExtCharacterOwner s then Inl CheckFailed
      else
        bind_result (UpdateWalkState s) (\<lambda>s1.
        bind_result (UpdatePerformGenericActionState s1) (\<lambda>s2.
        bind_result (UpdateSprintState s2) (\<lambda>s3.
        Inr (Notify OnUpdateBeforeMovement (UpdateAccelerationAndFriction s3))))))"

text \<open>\<open>OnMovementModeChanged\<close> runs after the engine has stored the new mode in
  \<open>MovementMode\<close>; it ends with the inherited \<open>Super::OnMovementModeChanged\<close> (engine code,
  not modelled).\<close>

definition OnMovementModeChanged ::
  "EMovementMode \<Rightarrow> nat \<Rightarrow> movement_component \<Rightarrow> movement_component" where
  "OnMovementModeChanged PreviousMovementMode PreviousCustomMode s =
     (if \<not> HasValidData s then s
      else
        (let s1 = (if \<not> (MovementMode s = MOVE_Walking \<and> PreviousMovementMode = MOVE_NavWalking)
                      \<and> \<not> (MovementMode s = MOVE_NavWalking \<and> PreviousMovementMode = MOVE_Walking)
                   then s\<lparr>bIsPivotTurning := False\<rparr>
                   else s)
         in if MovementMode s1 = MOVE_Walking \<or> MovementMode s1 = MOVE_NavWalking
            then s1\<lparr>RotationOffset := 0\<rparr>
            else if MovementMode s1 = MOVE_Falling
            then s1\<lparr>MaxAcceleration := MaxFallingAcceleration s1,
                    MaxFallingGroundSpeed := sqrt (SizeSquared2D (Velocity s1)),
                    FallRotation := ActorRotation s1,
                    LookCardinalDirection := North\<rparr>
            else s1))"

text \<open>Two states that differ at most in the three toggles and the notifications.\<close>

definition SameMovement :: "movement_component \<Rightarrow> movement_component \<Rightarrow> bool" where
  "SameMovement s t \<longleftrightarrow>
     t = s\<lparr>bIsWalkingInsteadOfRunning := bIsWalkingInsteadOfRunning t,
           bIsSprinting := bIsSprinting t,
           bIsPerformingGenericAction := bIsPerformingGenericAction t,
           Notifications := Notifications t\<rparr>"

subsection \<open>Braking\<close>

definition GetBrakingFrictionFactor :: "movement_component \<Rightarrow> error + real" where
  "GetBrakingFrictionFactor s =
     (if \<not> bExtCharacterOwner s then Inl NullDereference
      else if bIsRagdoll s then Inr (BrakingFrictionFactorRagdoll s)
      else if bIsLanding s then Inr (BrakingFrictionFactorLanding s)
      else Inr (BrakingFrictionFactor s))"


definition MaxTimeStep :: real where
  "MaxTimeStep = 1 / 33"

text \<open>
  The \<open>while (RemainingTime >= MIN_TICK_TIME)\<close> loop of \<open>ApplyVelocityBraking\<close> (lines
  356-371), which \<open>PredictStopLocation\<close> repeats for \<open>LastVelocity\<close> (lines 2315-2327).
  The result is \<open>None\<close> when a step turns the velocity against \<open>OldVel\<close>, which is where
  both functions leave the loop early, and the velocity after the last step otherwise.
\<close>

function BrakingLoop ::
  "real \<Rightarrow> bool \<Rightarrow> FVector \<Rightarrow> FVector \<Rightarrow> real \<Rightarrow> FVector \<Rightarrow> FVector option" where
  "BrakingLoop Friction bZeroFriction RevAccel OldVel RemainingTime V =
     (if RemainingTime \<ge> MIN_TICK_TIME then
        (let dt = (if RemainingTime > MaxTimeStep \<and> \<not> bZeroFriction
                   then min MaxTimeStep (RemainingTime * (1 / 2))
                   else RemainingTime);
             V' = VSub V (VScale dt (VAdd (VScale Friction V) RevAccel))
         in if DotProduct V' OldVel \<le> 0 then None
            else BrakingLoop Friction bZeroFriction RevAccel OldVel (RemainingTime - dt) V')
      else Some V)"
  by pat_completeness auto
termination
proof (relation "measure (\<lambda>(Friction, bZeroFriction, RevAccel, OldVel, RemainingTime, V).
                    nat \<lceil>RemainingTime * 66\<rceil>)", goal_cases)
  case 1
  show ?case by simp
next
  case (2 Friction bZeroFriction RevAccel OldVel RemainingTime V dt V')
  have pos: "0 < RemainingTime" using 2(1) by (simp add: MIN_TICK_TIME_def)
  have "\<lceil>(RemainingTime - dt) * 66\<rceil> < \<lceil>RemainingTime * 66\<rceil>"
  proof (cases "RemainingTime > MaxTimeStep \<and> \<not> bZeroFriction")
    case False
    then have "dt = RemainingTime" using 2(2) by auto
    then show ?thesis using pos by simp
  next
    case True
    then have dt: "dt = min MaxTimeStep (RemainingTime * (1 / 2))" using 2(2) by auto
    show ?thesis
    proof (cases "MaxTimeStep \<le> RemainingTime * (1 / 2)")
      case True
      then have d33: "dt = 1 / 33"
        using dt by (simp add: MaxTimeStep_def min_def)
      have "(RemainingTime - dt) * 66 = RemainingTime * 66 - 2"
        unfolding d33 by (simp add: algebra_simps)
      then have "\<lceil>(RemainingTime - dt) * 66\<rceil> = \<lceil>RemainingTime * 66 - 2\<rceil>"
        by (rule arg_cong)
      also have "\<dots> = \<lceil>RemainingTime * 66\<rceil> - 2"
        by simp
      finally show ?thesis by linarith
    next
      case False
      then have e: "dt = RemainingTime * (1 / 2)" using dt by (simp add: min_def)
      have "RemainingTime * 66 > 2" using True by (simp add: MaxTimeStep_def)
      moreover have "(RemainingTime - dt) * 66 \<le> 2"
        using False e by (simp add: MaxTimeStep_def)
      ultimately have "\<lceil>(RemainingTime - dt) * 66\<rceil> \<le> 2" "2 < \<lceil>RemainingTime * 66\<rceil>"
        by (simp_all add: ceiling_le_iff less_ceiling_iff)
      then show ?thesis by linarith
    qed
  qed
  moreover have "0 < \<lceil>RemainingTime * 66\<rceil>" using pos by simp
  ultimately show ?case by simp
qed

declare BrakingLoop.simps [simp del]

text \<open>\<open>ApplyVelocityBraking\<close>, lines 325-379.\<close>

definition ApplyVelocityBraking ::
  "real \<Rightarrow> real \<Rightarrow> real \<Rightarrow> movement_component \<Rightarrow> error + movement_component" where
  "ApplyVelocityBraking DeltaTime Friction BrakingDeceleration s =
     (if IsZero (Velocity s) \<or> \<not> HasValidData s \<or> bHasAnimRootMotion s
         \<or> DeltaTime < MIN_TICK_TIME
      then Inr s
      else
        bind_result (GetBrakingFrictionFactor s) (\<lambda>Factor.
          (let FrictionFactor = max 0 Factor;
               Friction1 = max 0 (Friction * FrictionFactor);
               BrakingDeceleration1 = max 0 BrakingDeceleration;
               bZeroFriction = (Friction1 = 0);
               bZeroBraking = (BrakingDeceleration1 = 0)
           in if bZeroFriction \<and> bZeroBraking then Inr s
              else
                (let OldVel = Velocity s;
                     RevAccel = (if bZeroBraking then ZeroVector
                                 else VScale BrakingDeceleration1 (GetSafeNormal (Velocity s)))
                 in case BrakingLoop Friction1 bZeroFriction RevAccel OldVel DeltaTime (Velocity s) of
                      None \<Rightarrow> Inr (s\<lparr>Velocity := ZeroVector\<rparr>)
                    | Some V \<Rightarrow>
                        (let VSizeSq = SizeSquared V
                         in if VSizeSq \<le> Square (BrakingSpeedTolerance s)
                               \<or> (\<not> bZeroBraking
                                   \<and> VSizeSq \<le> BRAKE_TO_STOP_VELOCITY * BRAKE_TO_STOP_VELOCITY)
                            then Inr (s\<lparr>Velocity := ZeroVector\<rparr>)
                            else Inr (s\<lparr>Velocity := V\<rparr>))))))"

text \<open>The call brakes: none of the early returns of lines 331-345 is taken.\<close>

definition BrakingApplies :: "real \<Rightarrow> real \<Rightarrow> real \<Rightarrow> movement_component \<Rightarrow> bool" where
  "BrakingApplies DeltaTime Friction BrakingDeceleration s \<longleftrightarrow>
     \<not> IsZero (Velocity s) \<and> HasValidData s \<and> \<not> bHasAnimRootMotion s
     \<and> DeltaTime \<ge> MIN_TICK_TIME
     \<and> (case GetBrakingFrictionFactor s of
          Inl e \<Rightarrow> False
        | Inr Factor \<Rightarrow> 0 < Friction * max 0 Factor \<or> 0 < BrakingDeceleration)"
subsection \<open>Stop prediction\<close>






subsection \<open>Integration of the braking model, after the specification\<close>




subsection \<open>Rotation and turn in place\<close>

text \<open>
  \<open>PhysicsRotation\<close> (lines 1733-1982) is modelled by what it does to the members of the
  component.  The rotation it hands to \<open>MoveUpdatedComponent\<close> at its end is not part of the
  model: it moves the updated component, whose rotation \<open>CurrentRotation\<close> is an input
  here, as is the controller's desired rotation \<open>ControlRotation\<close>.
\<close>

text \<open>Functions the rotation code calls that these sources do not define: the yaw of
  \<open>FVector::Rotation()\<close>, \<open>FMathEx::FindCardinalDirection\<close> and
  \<open>FMathEx::FSafeInterpTo\<close>.\<close>

record rotation_functions =
  VectorYaw :: "FVector \<Rightarrow> real"
  FindCardinalDirection :: "real \<Rightarrow> ECardinalDirection \<Rightarrow> real \<Rightarrow> real \<Rightarrow> ECardinalDirection"
  SafeInterpTo :: "real \<Rightarrow> real \<Rightarrow> real \<Rightarrow> real \<Rightarrow> real"

definition ShouldRemainVertical :: "movement_component \<Rightarrow> bool" where
  "ShouldRemainVertical s \<longleftrightarrow> True"

definition ComputeOrientToLookRotation ::
  "rotation_functions \<Rightarrow> FRotator \<Rightarrow> real \<Rightarrow> real \<Rightarrow> real \<Rightarrow> movement_component
     \<Rightarrow> FRotator \<times> movement_component" where
  "ComputeOrientToLookRotation E ControlRotation NorthSegmentHalfWidth Buffer DeltaSeconds s =
     (let LookYawDelta0 =
            FindDeltaAngleDegrees (Yaw ControlRotation)
              (VectorYaw E (if SizeSquared2D (Acceleration s) > KINDA_SMALL_NUMBER
                            then Acceleration s else Velocity s));
          s1 = s\<lparr>LookCardinalDirection :=
                   FindCardinalDirection E LookYawDelta0 (LookCardinalDirection s)
                     NorthSegmentHalfWidth Buffer\<rparr>;
          LookYawDelta =
            (case LookCardinalDirection s1 of
               East \<Rightarrow> LookYawDelta0 - 90
             | West \<Rightarrow> LookYawDelta0 + 90
             | South \<Rightarrow> (if LookYawDelta0 > 0 then LookYawDelta0 - 180 else LookYawDelta0 + 180)
             | North \<Rightarrow> LookYawDelta0);
          s2 = s1\<lparr>RotationOffset := SafeInterpTo E (RotationOffset s1) LookYawDelta DeltaSeconds 5\<rparr>
      in (FRotator (Pitch ControlRotation) (Yaw ControlRotation + RotationOffset s2)
            (Roll ControlRotation), s2))"

definition CanTurnInPlaceInCurrentState :: "movement_component \<Rightarrow> bool" where
  "CanTurnInPlaceInCurrentState s \<longleftrightarrow>
     bEnableTurnInPlace s \<and> bExtCharacterOwner s \<and> \<not> bIsGettingUp s
     \<and> \<not> bHasRootMotionSources s"

definition ResetTurnInPlaceState :: "movement_component \<Rightarrow> error + movement_component" where
  "ResetTurnInPlaceState s =
     (if \<not> bExtCharacterOwner s then Inl CheckFailed
      else Inr (s\<lparr>bCanEnforceTurnInPlaceRotationMaxDistance := False,
                 TurnInPlaceTargetYaw := NegInfinity,
                 TurnInPlaceTimeCounter := 0\<rparr>))"

definition ResetControllerDesireRotationState :: "movement_component \<Rightarrow> movement_component" where
  "ResetControllerDesireRotationState s = s\<lparr>bCanEnforceControlRotationMaxDistance := False\<rparr>"

text \<open>\<open>IsFinite(TurnInPlaceTargetYaw) ? TurnInPlaceTargetYaw : CurrentRotation.Yaw\<close>.\<close>

fun FiniteOr :: "efloat \<Rightarrow> real \<Rightarrow> real" where
  "FiniteOr (Finite x) d = x"
| "FiniteOr PosInfinity d = d"
| "FiniteOr NegInfinity d = d"

text \<open>The local constant \<open>TurnInPlaceAngle\<close> of lines 1826-1828 and 1874-1876.\<close>

definition TurnInPlaceAngle :: "real \<Rightarrow> real \<Rightarrow> real \<Rightarrow> real" where
  "TurnInPlaceAngle LookYawDelta LookYawAngle MaxLookYawAngle =
     (let bIsLookingRight = (LookYawDelta \<ge> 0);
          TurnInPlaceSteps = IntDivide \<lfloor>LookYawAngle - MaxLookYawAngle\<rfloor> 90 + 1
      in of_int TurnInPlaceSteps * (if bIsLookingRight then 90 else - 90))"

text \<open>Lines 1815-1838: the turn that waits for \<open>TurnInPlaceDelay\<close>.\<close>

definition DelayedTurnInPlace ::
  "real \<Rightarrow> FRotator \<Rightarrow> FRotator \<Rightarrow> movement_component \<Rightarrow> movement_component" where
  "DelayedTurnInPlace DeltaSeconds CurrentRotation ControlRotation s =
     (if \<not> IsFinite (TurnInPlaceTargetYaw s) then
        (let MaxLookYawAngle = Clamp (LookAngleThreshold s) 45 90;
             LookYawDelta = FindDeltaAngleDegrees (Yaw CurrentRotation) (Yaw ControlRotation);
             LookYawAngle = \<bar>LookYawDelta\<bar>
         in if LookYawAngle > MaxLookYawAngle then
              (let s1 = s\<lparr>TurnInPlaceTimeCounter := TurnInPlaceTimeCounter s + DeltaSeconds\<rparr>
               in if TurnInPlaceTimeCounter s1 > TurnInPlaceDelay s1 then
                    s1\<lparr>TurnInPlaceTargetYaw :=
                         Finite (Yaw CurrentRotation
                                   + TurnInPlaceAngle LookYawDelta LookYawAngle MaxLookYawAngle),
                       TurnInPlaceTimeCounter := 0\<rparr>
                  else s1)
            else s\<lparr>TurnInPlaceTimeCounter := 0\<rparr>)
      else s)"

text \<open>Lines 1842-1879: the turn without delay.  The second component is the yaw of the local
  variable \<open>CurrentRotation\<close>, which the maximum distance may replace.\<close>

definition ImmediateTurnInPlace ::
  "FRotator \<Rightarrow> FRotator \<Rightarrow> movement_component \<Rightarrow> movement_component \<times> real" where
  "ImmediateTurnInPlace CurrentRotation ControlRotation s =
     (let s1 = s\<lparr>TurnInPlaceTimeCounter := 0\<rparr>;
          (s2, CurrentYaw) =
            (if TurnInPlaceMaxDistance s1 > 0 then
               (let LookYawDelta =
                      FindDeltaAngleDegrees (Yaw CurrentRotation) (Yaw ControlRotation)
                in if LookYawDelta < - TurnInPlaceMaxDistance s1 then
                     (if bCanEnforceTurnInPlaceRotationMaxDistance s1
                      then (s1, NormalizeAxis (Yaw ControlRotation + TurnInPlaceMaxDistance s1))
                      else (s1, Yaw CurrentRotation))
                   else if LookYawDelta > TurnInPlaceMaxDistance s1 then
                     (if bCanEnforceTurnInPlaceRotationMaxDistance s1
                      then (s1, NormalizeAxis (Yaw ControlRotation - TurnInPlaceMaxDistance s1))
                      else (s1, Yaw CurrentRotation))
                   else (s1\<lparr>bCanEnforceTurnInPlaceRotationMaxDistance := True\<rparr>,
                         Yaw CurrentRotation))
             else (s1, Yaw CurrentRotation));
          CurrentTargetYaw = FiniteOr (TurnInPlaceTargetYaw s2) CurrentYaw;
          LookYawDelta = FindDeltaAngleDegrees CurrentTargetYaw (Yaw ControlRotation);
          MaxLookYawAngle = Clamp (LookAngleThreshold s2) 45 90;
          LookYawAngle = \<bar>LookYawDelta\<bar>
      in if LookYawAngle > MaxLookYawAngle then
           (s2\<lparr>TurnInPlaceTargetYaw :=
                  Finite (UnwindDegrees
                            (CurrentTargetYaw
                               + TurnInPlaceAngle LookYawDelta LookYawAngle MaxLookYawAngle))\<rparr>,
            CurrentYaw)
         else (s2, CurrentYaw))"

text \<open>Lines 1807-1880 for a character that can turn in place: the restore from suspension
  and one of the two turns.\<close>

definition TurnInPlaceStep ::
  "real \<Rightarrow> FRotator \<Rightarrow> FRotator \<Rightarrow> movement_component \<Rightarrow> movement_component \<times> real" where
  "TurnInPlaceStep DeltaSeconds CurrentRotation ControlRotation s =
     (let s1 = (if \<not> IsFinite (TurnInPlaceTargetYaw s) \<and> IsNegative (TurnInPlaceTargetYaw s)
                then s\<lparr>TurnInPlaceTargetYaw := PosInfinity\<rparr>
                else s)
      in if bUseTurnInPlaceDelay s1 \<and> TurnInPlaceDelay s1 > 1 / 100
         then (DelayedTurnInPlace DeltaSeconds CurrentRotation ControlRotation s1,
               Yaw CurrentRotation)
         else ImmediateTurnInPlace CurrentRotation ControlRotation s1)"

text \<open>Lines 1888-1898: the local variable \<open>TargetRotation\<close> of the turn in place.\<close>

definition TurnInPlaceTargetRotation ::
  "FRotator \<Rightarrow> real \<Rightarrow> movement_component \<Rightarrow> FRotator" where
  "TurnInPlaceTargetRotation ControlRotation CurrentYaw s =
     (let TargetRotation =
            FRotator (Pitch ControlRotation)
              (FiniteOr (TurnInPlaceTargetYaw s) CurrentYaw)
              (Roll ControlRotation)
      in if ShouldRemainVertical s then FRotator 0 (Yaw TargetRotation) 0 else TargetRotation)"

text \<open>Lines 1801-1919: the character stands.\<close>

definition StandingRotation ::
  "real \<Rightarrow> FRotator \<Rightarrow> FRotator \<Rightarrow> movement_component \<Rightarrow> error + movement_component" where
  "StandingRotation DeltaSeconds CurrentRotation ControlRotation s =
     (let s1 = ResetControllerDesireRotationState s
      in if CanTurnInPlaceInCurrentState s1 then
           (let (s2, CurrentYaw) = TurnInPlaceStep DeltaSeconds CurrentRotation ControlRotation s1
            in if RotatorEquals
                    (FRotator (Pitch CurrentRotation) CurrentYaw (Roll CurrentRotation))
                    (TurnInPlaceTargetRotation ControlRotation CurrentYaw s2) AngleTolerance
               then Inr (s2\<lparr>TurnInPlaceTargetYaw := PosInfinity\<rparr>)
               else Inr s2)
         else ResetTurnInPlaceState s1)"

text \<open>Lines 1920-1964: the character moves.\<close>

definition MovingRotation ::
  "rotation_functions \<Rightarrow> real \<Rightarrow> FRotator \<Rightarrow> FRotator \<Rightarrow> movement_component
     \<Rightarrow> error + movement_component" where
  "MovingRotation E DeltaSeconds CurrentRotation ControlRotation s =
     bind_result (ResetTurnInPlaceState s) (\<lambda>s1.
       (let s2 = (if ControlRotationMaxDistance s1 > 0 then
                    (let LookYawDelta =
                           FindDeltaAngleDegrees (Yaw CurrentRotation) (Yaw ControlRotation)
                     in if LookYawDelta < - ControlRotationMaxDistance s1 then s1
                        else if LookYawDelta > ControlRotationMaxDistance s1 then s1
                        else s1\<lparr>bCanEnforceControlRotationMaxDistance := True\<rparr>)
                  else s1)
        in Inr (snd (ComputeOrientToLookRotation E ControlRotation (LookAngleThreshold s2) 5
                       DeltaSeconds s2))))"

definition PhysicsRotation ::
  "rotation_functions \<Rightarrow> real \<Rightarrow> FRotator \<Rightarrow> FRotator \<Rightarrow> movement_component
     \<Rightarrow> error + movement_component" where
  "PhysicsRotation E DeltaSeconds CurrentRotation ControlRotation s =
     (if \<not> RoleAtLeastAutonomousProxy s then Inl CheckFailed
      else if \<not> HasValidData s \<or> (\<not> bHasController s \<and> \<not> bRunPhysicsWithNoController s)
        then Inr s
      else if \<not> bExtCharacterOwner s then Inl NullDereference
      else if bIsRagdoll s \<or> bIsGettingUp s then Inr s
      else if bOrientRotationToMovement s then
        bind_result (ResetTurnInPlaceState s) (\<lambda>s1.
          (let s2 = ResetControllerDesireRotationState s1
           in if \<not> (RotationRateFactor s2 \<ge> 0 \<and> RotationRateFactor s2 \<le> 1)
              then Inl CheckFailed
              else Inr s2))
      else if bHasController s \<and> bUseControllerDesiredRotation s then
        (if MovementMode s = MOVE_Falling \<and> \<not> (bCanRotateWhileJumping s \<and> bIsJumping s) then
           bind_result (ResetTurnInPlaceState s) (\<lambda>s1.
             Inr (ResetControllerDesireRotationState s1))
         else if SizeSquared2D (Velocity s) < KINDA_SMALL_NUMBER then
           StandingRotation DeltaSeconds CurrentRotation ControlRotation s
         else
           MovingRotation E DeltaSeconds CurrentRotation ControlRotation s)
      else
        bind_result (ResetTurnInPlaceState s) (\<lambda>s1.
          Inr (ResetControllerDesireRotationState s1)))"

text \<open>The conditions under which \<open>PhysicsRotation\<close> reaches the turn in place: the
  component is valid and controlled, the character is not a ragdoll and not getting up,
  the rotation follows the controller, and the character stands on ground (or rotates while
  jumping) and can turn in place.\<close>

definition StandsAndCanTurn :: "movement_component \<Rightarrow> bool" where
  "StandsAndCanTurn s \<longleftrightarrow>
     RoleAtLeastAutonomousProxy s \<and> HasValidData s \<and> bHasController s
     \<and> \<not> bIsRagdoll s \<and> \<not> bIsGettingUp s
     \<and> \<not> bOrientRotationToMovement s \<and> bUseControllerDesiredRotation s
     \<and> \<not> (MovementMode s = MOVE_Falling \<and> \<not> (bCanRotateWhileJumping s \<and> bIsJumping s))
     \<and> SizeSquared2D (Velocity s) < KINDA_SMALL_NUMBER
     \<and> CanTurnInPlaceInCurrentState s"

subsection \<open>Example component\<close>

text \<open>A component with the values the constructor assigns (lines 110-220), attached to a
  valid character with a controller on the authority, at rest in walking mode and facing
  along the X axis.  Members that the constructor leaves to the engine's base class are
  given the base class defaults.\<close>

definition DefaultComponent :: movement_component where
  "DefaultComponent =
     \<lparr>bUpdatedComponent = True, bCharacterOwner = True, bExtCharacterOwner = True,
      LocalRole = ROLE_Authority, bIsReplicated = True, bHasController = True,
      MovementMode = MOVE_Walking,
      Velocity = ZeroVector, Acceleration = ZeroVector, ForwardVector = FVector 1 0 0,
      ActorRotation = FRotator 0 0 0,
      bIsCrouched = False, bIsRagdoll = False, bIsGettingUp = False, bIsLanding = False,
      bIsJumping = False,
      bIsWalkingInsteadOfRunning = False, bIsSprinting = False,
      bIsPerformingGenericAction = False,
      bWantsToWalkInsteadOfRun = False, bWantsToSprint = False,
      bWantsToPerformGenericAction = False,
      bCanWalkInsteadOfRun = True, bCanSprint = True, bCanPerformGenericAction = True,
      MaxSprintAngle = 50,
      LastMovementAcceleration = ZeroVector, LastMovementVelocity = ZeroVector,
      LastAcceleratedVelocity = ZeroVector,
      bIsPivotTurning = False, bEnablePivotTurn = True, PivotTurnMinSpeed = 250,
      PivotTurnAccelerationFactor = (2 / 10, 1), PivotTurnFrictionFactor = (4 / 10, 1),
      MaxAcceleration = 0, GroundFriction = 0,
      MaxWalkAcceleration = 800, WalkFriction = 6,
      MaxFallingAcceleration = 0, MaxSwimAcceleration = 100, MaxFlyAcceleration = 500,
      MaxFallingGroundSpeed = 0, RotationOffset = 0, FallRotation = FRotator 0 0 0,
      LookCardinalDirection = North,
      bHasAnimRootMotion = False, bHasRootMotionSources = False,
      BrakingFrictionFactor = 1, BrakingFrictionFactorRagdoll = 3 / 10,
      BrakingFrictionFactorLanding = 1 / 2,
      BrakingDecelerationWalking = 400, BrakingDecelerationFalling = 0,
      BrakingDecelerationSwimming = 100, BrakingDecelerationFlying = 500,
      BrakingDecelerationRagdoll = 0, BrakingDecelerationLanding = 50,
      BrakingSpeedTolerance = 1,
      bUseSeparateBrakingFriction = False, BrakingFriction = 0, FluidFriction = 3 / 10,
      ComponentLocation = ZeroVector,
      bRunPhysicsWithNoController = False, bOrientRotationToMovement = False,
      bUseControllerDesiredRotation = True, bCanRotateWhileJumping = False,
      bEnableTurnInPlace = True, bUseTurnInPlaceDelay = False, TurnInPlaceDelay = 1 / 2,
      TurnInPlaceMaxDistance = 90, TurnInPlaceTargetYaw = PosInfinity,
      TurnInPlaceTimeCounter = 0, LookAngleThreshold = 60, ControlRotationMaxDistance = 0,
      bCanEnforceTurnInPlaceRotationMaxDistance = False,
      bCanEnforceControlRotationMaxDistance = False,
      RotationRateFactor = 1,
      Notifications = []\<rparr>"

text \<open>The same character with its last acceleration opposed to its last velocity, above the
  minimum pivot speed.\<close>

definition PivotingComponent :: movement_component where
  "PivotingComponent =
     DefaultComponent\<lparr>Velocity := FVector 300 0 0, Acceleration := FVector (- 1) 0 0,
       LastMovementAcceleration := FVector (- 1) 0 0, LastMovementVelocity := FVector 1 0 0,
       LastAcceleratedVelocity := FVector 300 0 0\<rparr>"

text \<open>The same character running straight ahead and wanting to sprint, and that character
  crouched.\<close>

definition RunningComponent :: movement_component where
  "RunningComponent =
     DefaultComponent\<lparr>Velocity := FVector 300 0 0, Acceleration := FVector 1 0 0,
       bWantsToSprint := True\<rparr>"

definition CrouchedComponent :: movement_component where
  "CrouchedComponent = RunningComponent\<lparr>bIsCrouched := True\<rparr>"

text \<open>The default character moving at 300 units per second, and creeping at half a unit per
  second.\<close>

definition BrakingComponent :: movement_component where
  "BrakingComponent = DefaultComponent\<lparr>Velocity := FVector 300 0 0\<rparr>"

definition CreepingComponent :: movement_component where
  "CreepingComponent = DefaultComponent\<lparr>Velocity := FVector (1 / 2) 0 0\<rparr>"




text \<open>The default character with a suspended turn in place, and trivial stand-ins for the
  functions of \<open>rotation_functions\<close>.\<close>

definition SuspendedComponent :: movement_component where
  "SuspendedComponent = DefaultComponent\<lparr>TurnInPlaceTargetYaw := NegInfinity\<rparr>"

definition NoRotationFunctions :: rotation_functions where
  "NoRotationFunctions =
     \<lparr>VectorYaw = (\<lambda>v. 0), FindCardinalDirection = (\<lambda>d c w b. c),
      SafeInterpTo = (\<lambda>c t d i. t)\<rparr>"

section \<open>Quantized replication (TPCATypes.h, TPCATypes.cpp)\<close>

datatype EVectorQuantization = RoundWholeNumber | RoundOneDecimal | RoundTwoDecimals

datatype ERotatorQuantization = ByteComponents | ShortComponents

text \<open>The template arguments \<open>ScaleFactor\<close> and \<open>MaxBitsPerComponent\<close> that
  \<open>SerializeQuantizedVector\<close> chooses for a quantization level (lines 21-30 of
  TPCATypes.cpp).\<close>

definition QuantizationParameters :: "EVectorQuantization \<Rightarrow> int \<times> nat" where
  "QuantizationParameters QuantizationLevel =
     (case QuantizationLevel of
        RoundTwoDecimals \<Rightarrow> (100, 30)
      | RoundOneDecimal \<Rightarrow> (10, 27)
      | RoundWholeNumber \<Rightarrow> (1, 24))"

text \<open>
  Modelled from the spec: the engine template \<open>SerializePackedVector<ScaleFactor,
  MaxBitsPerComponent>\<close>, which these sources call and do not define; the four
  definitions \<open>WritePackedComponent\<close>, \<open>ReadPackedComponent\<close>, \<open>WritePackedVector\<close> and
  \<open>ReadPackedVector\<close> stand for it.  The spec describes tiers that round to whole numbers,
  one decimal or two decimals and trade maximum magnitude for precision within a fixed bit
  budget; the comment in \<open>SerializeQuantizedVector\<close> gives the maximum magnitude of the
  two-decimal tier as 2^30 / 100.  So writing scales a component by \<open>ScaleFactor\<close>, rounds
  it to the nearest integer and keeps the integer within what \<open>MaxBitsPerComponent\<close> bits
  and a sign hold; reading divides by \<open>ScaleFactor\<close>.
\<close>

definition WritePackedComponent :: "int \<Rightarrow> nat \<Rightarrow> real \<Rightarrow> int" where
  "WritePackedComponent ScaleFactor MaxBitsPerComponent x =
     max (- (2 ^ MaxBitsPerComponent))
       (min (2 ^ MaxBitsPerComponent - 1) \<lfloor>x * of_int ScaleFactor + 1 / 2\<rfloor>)"

definition ReadPackedComponent :: "int \<Rightarrow> int \<Rightarrow> real" where
  "ReadPackedComponent ScaleFactor n = of_int n / of_int ScaleFactor"

definition WritePackedVector :: "int \<Rightarrow> nat \<Rightarrow> FVector \<Rightarrow> int \<times> int \<times> int" where
  "WritePackedVector ScaleFactor MaxBitsPerComponent v =
     (WritePackedComponent ScaleFactor MaxBitsPerComponent (X v),
      WritePackedComponent ScaleFactor MaxBitsPerComponent (Y v),
      WritePackedComponent ScaleFactor MaxBitsPerComponent (Z v))"

definition ReadPackedVector :: "int \<Rightarrow> int \<times> int \<times> int \<Rightarrow> FVector" where
  "ReadPackedVector ScaleFactor w =
     (case w of (a, b, c) \<Rightarrow>
        FVector (ReadPackedComponent ScaleFactor a) (ReadPackedComponent ScaleFactor b)
          (ReadPackedComponent ScaleFactor c))"

text \<open>\<open>SerializeQuantizedVector\<close> with a saving archive, and with a loading one.\<close>

definition SaveQuantizedVector :: "EVectorQuantization \<Rightarrow> FVector \<Rightarrow> int \<times> int \<times> int" where
  "SaveQuantizedVector QuantizationLevel v =
     (case QuantizationParameters QuantizationLevel of
        (ScaleFactor, MaxBitsPerComponent) \<Rightarrow> WritePackedVector ScaleFactor MaxBitsPerComponent v)"

definition LoadQuantizedVector :: "EVectorQuantization \<Rightarrow> int \<times> int \<times> int \<Rightarrow> FVector" where
  "LoadQuantizedVector QuantizationLevel w =
     (case QuantizationParameters QuantizationLevel of
        (ScaleFactor, MaxBitsPerComponent) \<Rightarrow> ReadPackedVector ScaleFactor w)"

text \<open>The struct \<open>FRepExtMovement\<close>.\<close>

record rep_ext_movement =
  Rep_bIsPivotTurning :: bool
  Rep_Location :: FVector
  Rep_Rotation :: FRotator
  Rep_Velocity :: FVector
  Rep_Acceleration :: FVector
  Rep_TurnInPlaceTargetYaw :: efloat
  VelocityQuantizationLevel :: EVectorQuantization
  LocationQuantizationLevel :: EVectorQuantization
  RotationQuantizationLevel :: ERotatorQuantization

text \<open>
  \<open>FRepExtMovement::NetSerialize\<close> on the sender followed by \<open>NetSerialize\<close> on the
  receiver, whose struct has the same quantization levels.  The pivot turn bit and the raw
  turn in place yaw arrive as sent.  \<open>RotatorCodec\<close> stands for what the engine's
  compressed rotators do to the rotation and \<open>FixedVectorCodec\<close> for what
  \<open>SerializeFixedVector<1, 16>\<close> does to the acceleration, both written then read.
\<close>

definition NetSerializeRoundTrip ::
  "(ERotatorQuantization \<Rightarrow> FRotator \<Rightarrow> FRotator) \<Rightarrow> (FVector \<Rightarrow> FVector)
     \<Rightarrow> rep_ext_movement \<Rightarrow> rep_ext_movement" where
  "NetSerializeRoundTrip RotatorCodec FixedVectorCodec m =
     m\<lparr>Rep_Location :=
         LoadQuantizedVector (LocationQuantizationLevel m)
           (SaveQuantizedVector (LocationQuantizationLevel m) (Rep_Location m)),
       Rep_Rotation := RotatorCodec (RotationQuantizationLevel m) (Rep_Rotation m),
       Rep_Velocity :=
         LoadQuantizedVector (VelocityQuantizationLevel m)
           (SaveQuantizedVector (VelocityQuantizationLevel m) (Rep_Velocity m)),
       Rep_Acceleration := FixedVectorCodec (Rep_Acceleration m)\<rparr>"

text \<open>The precision and the maximum magnitude of a quantization level.\<close>

definition QuantizationPrecision :: "EVectorQuantization \<Rightarrow> real" where
  "QuantizationPrecision QuantizationLevel =
     (case QuantizationLevel of
        RoundWholeNumber \<Rightarrow> 1
      | RoundOneDecimal \<Rightarrow> 1 / 10
      | RoundTwoDecimals \<Rightarrow> 1 / 100)"

definition QuantizationMaxMagnitude :: "EVectorQuantization \<Rightarrow> real" where
  "QuantizationMaxMagnitude QuantizationLevel =
     (case QuantizationParameters QuantizationLevel of
        (ScaleFactor, MaxBitsPerComponent) \<Rightarrow> 2 ^ MaxBitsPerComponent / of_int ScaleFactor)"

text \<open>Two vectors differ by at most \<open>e\<close> in every component; a vector has no component
  beyond \<open>b\<close>.\<close>

definition VectorWithin :: "real \<Rightarrow> FVector \<Rightarrow> FVector \<Rightarrow> bool" where
  "VectorWithin e a b \<longleftrightarrow>
     \<bar>X a - X b\<bar> \<le> e \<and> \<bar>Y a - Y b\<bar> \<le> e \<and> \<bar>Z a - Z b\<bar> \<le> e"

definition VectorBounded :: "real \<Rightarrow> FVector \<Rightarrow> bool" where
  "VectorBounded b v \<longleftrightarrow> \<bar>X v\<bar> \<le> b \<and> \<bar>Y v\<bar> \<le> b \<and> \<bar>Z v\<bar> \<le> b"

text \<open>A snapshot with the quantization levels of the constructor (whole numbers), a location
  with two decimals and a velocity.\<close>

definition ExampleSnapshot :: rep_ext_movement where
  "ExampleSnapshot =
     \<lparr>Rep_bIsPivotTurning = False,
      Rep_Location = FVector (1234 + 56 / 100) (- (78 + 9 / 10)) 0,
      Rep_Rotation = FRotator 0 0 0,
      Rep_Velocity = FVector 300 (1 / 4) 0,
      Rep_Acceleration = ZeroVector,
      Rep_TurnInPlaceTargetYaw = Finite 0,
      VelocityQuantizationLevel = RoundWholeNumber,
      LocationQuantizationLevel = RoundWholeNumber,
      RotationQuantizationLevel = ByteComponents\<rparr>"

section \<open>Per-tick state update\<close>

lemma SameMovement_ex:
  "SameMovement s t \<longleftrightarrow>
     (\<exists>w p r n. t = s\<lparr>bIsWalkingInsteadOfRunning := w, bIsSprinting := r,
                      bIsPerformingGenericAction := p, Notifications := n\<rparr>)"
proof
  assume "SameMovement s t"
  then show "\<exists>w p r n. t = s\<lparr>bIsWalkingInsteadOfRunning := w, bIsSprinting := r,
                      bIsPerformingGenericAction := p, Notifications := n\<rparr>"
    unfolding SameMovement_def by blast
next
  assume "\<exists>w p r n. t = s\<lparr>bIsWalkingInsteadOfRunning := w, bIsSprinting := r,
                      bIsPerformingGenericAction := p, Notifications := n\<rparr>"
  then show "SameMovement s t"
    unfolding SameMovement_def by (elim exE) simp
qed

lemma SameMovement_refl: "SameMovement s s"
  unfolding SameMovement_ex
  by (rule exI [of _ "bIsWalkingInsteadOfRunning s"], rule exI [of _ "bIsPerformingGenericAction s"],
      rule exI [of _ "bIsSprinting s"], rule exI [of _ "Notifications s"]) simp

lemma SameMovement_trans: "SameMovement s t \<Longrightarrow> SameMovement t u \<Longrightarrow> SameMovement s u"
  unfolding SameMovement_ex by (elim exE) (simp, blast)

lemma UpdateWalkState_same: "UpdateWalkState s = Inr t \<Longrightarrow> SameMovement s t"
  unfolding SameMovement_ex
  apply (rule exI [of _ "bIsWalkingInsteadOfRunning t"], rule exI [of _ "bIsPerformingGenericAction s"],
      rule exI [of _ "bIsSprinting s"], rule exI [of _ "Notifications t"])
  apply (auto simp add: UpdateWalkState_def Walk_def UnWalk_def Notify_def Let_def split: if_splits)
  done

lemma UpdatePerformGenericActionState_same:
  "UpdatePerformGenericActionState s = Inr t \<Longrightarrow> SameMovement s t"
  unfolding SameMovement_ex
  apply (rule exI [of _ "bIsWalkingInsteadOfRunning s"], rule exI [of _ "bIsPerformingGenericAction t"],
      rule exI [of _ "bIsSprinting s"], rule exI [of _ "Notifications t"])
  apply (auto simp add: UpdatePerformGenericActionState_def PerformGenericAction_def
       UnPerformGenericAction_def Notify_def Let_def split: if_splits)
  done

lemma UpdateSprintState_same: "UpdateSprintState s = Inr t \<Longrightarrow> SameMovement s t"
  unfolding SameMovement_ex
  apply (rule exI [of _ "bIsWalkingInsteadOfRunning s"], rule exI [of _ "bIsPerformingGenericAction s"],
      rule exI [of _ "bIsSprinting t"], rule exI [of _ "Notifications t"])
  apply (auto simp add: UpdateSprintState_def Sprint_def UnSprint_def Notify_def Let_def split: if_splits)
  done

lemma SameMovement_fields:
  assumes "SameMovement s t"
  shows "MovementMode t = MovementMode s" "bIsPivotTurning t = bIsPivotTurning s"
    "MovementDeflection t = MovementDeflection s" "Acceleration t = Acceleration s"
    "Velocity t = Velocity s" "LastAcceleratedVelocity t = LastAcceleratedVelocity s"
    "PivotTurnMinSpeed t = PivotTurnMinSpeed s" "bEnablePivotTurn t = bEnablePivotTurn s"
    "bIsLanding t = bIsLanding s" "bIsGettingUp t = bIsGettingUp s" "bIsRagdoll t = bIsRagdoll s"
  using assms unfolding SameMovement_ex MovementDeflection_def by auto

lemma Update_decompose:
  assumes "UpdateCharacterStateBeforeMovement s = Inr s'"
  obtains s3 where "SameMovement s s3"
    and "s' = Notify OnUpdateBeforeMovement (UpdateAccelerationAndFriction s3)"
proof -
  from assms obtain s1 s2 s3 where
    1: "UpdateWalkState s = Inr s1" and 2: "UpdatePerformGenericActionState s1 = Inr s2"
    and 3: "UpdateSprintState s2 = Inr s3"
    and 4: "s' = Notify OnUpdateBeforeMovement (UpdateAccelerationAndFriction s3)"
    by (auto simp add: UpdateCharacterStateBeforeMovement_def bind_result_def
          split: if_splits sum.splits)
  have "SameMovement s s3"
    using UpdateWalkState_same [OF 1] UpdatePerformGenericActionState_same [OF 2]
      UpdateSprintState_same [OF 3] SameMovement_trans by blast
  with 4 show ?thesis using that by blast
qed

lemma PivotTurnAdjusts_flag [simp]: "bIsPivotTurning (PivotTurnAdjusts s) = bIsPivotTurning s"
  by (simp add: PivotTurnAdjusts_def Let_def)

lemma Notify_flag [simp]: "bIsPivotTurning (Notify n s) = bIsPivotTurning s"
  by (simp add: Notify_def)

lemma MovementDeflection_upd [simp]:
  "MovementDeflection (s\<lparr>MaxAcceleration := a, GroundFriction := g\<rparr>) = MovementDeflection s"
  by (simp add: MovementDeflection_def)

lemma UpdateAccelerationAndFriction_flag:
  "bIsPivotTurning (UpdateAccelerationAndFriction s) \<longleftrightarrow>
     (if MovementMode s = MOVE_Walking \<or> MovementMode s = MOVE_NavWalking then
        (if bIsPivotTurning s then
           \<not> (MovementDeflection s > 7071068 / 10000000
              \<or> (\<not> (SizeSquared2D (Acceleration s) > KINDA_SMALL_NUMBER)
                  \<and> \<not> (SizeSquared2D (Velocity s) > KINDA_SMALL_NUMBER)))
         else bEnablePivotTurn s
              \<and> MovementDeflection s < - (173648 / 1000000)
              \<and> SizeSquared2D (LastAcceleratedVelocity s) > Square (PivotTurnMinSpeed s)
              \<and> \<not> bIsLanding s \<and> \<not> bIsGettingUp s \<and> \<not> bIsRagdoll s)
      else bIsPivotTurning s)"
  by (simp add: UpdateAccelerationAndFriction_def Let_def)

lemma Update_flag:
  assumes "UpdateCharacterStateBeforeMovement s = Inr s'"
  shows "bIsPivotTurning s' \<longleftrightarrow>
     (if MovementMode s = MOVE_Walking \<or> MovementMode s = MOVE_NavWalking then
        (if bIsPivotTurning s then
           \<not> (MovementDeflection s > 7071068 / 10000000
              \<or> (\<not> (SizeSquared2D (Acceleration s) > KINDA_SMALL_NUMBER)
                  \<and> \<not> (SizeSquared2D (Velocity s) > KINDA_SMALL_NUMBER)))
         else bEnablePivotTurn s
              \<and> MovementDeflection s < - (173648 / 1000000)
              \<and> SizeSquared2D (LastAcceleratedVelocity s) > Square (PivotTurnMinSpeed s)
              \<and> \<not> bIsLanding s \<and> \<not> bIsGettingUp s \<and> \<not> bIsRagdoll s)
      else bIsPivotTurning s)"
proof -
  from assms obtain s3 where a: "SameMovement s s3"
    and b: "s' = Notify OnUpdateBeforeMovement (UpdateAccelerationAndFriction s3)"
    by (rule Update_decompose)
  show ?thesis
    unfolding b Notify_flag UpdateAccelerationAndFriction_flag SameMovement_fields [OF a] ..
qed

lemma OnMovementModeChanged_flag:
  "HasValidData s \<Longrightarrow> MovementMode s \<noteq> MOVE_Walking \<Longrightarrow> MovementMode s \<noteq> MOVE_NavWalking \<Longrightarrow>
     \<not> bIsPivotTurning (OnMovementModeChanged prev pc s)"
  by (simp add: OnMovementModeChanged_def Let_def)


lemma UpdateAccelerationAndFriction_mode [simp]:
  "MovementMode (UpdateAccelerationAndFriction s) = MovementMode s"
  by (simp add: UpdateAccelerationAndFriction_def PivotTurnAdjusts_def Let_def)

lemma Update_mode:
  assumes "UpdateCharacterStateBeforeMovement s = Inr s'"
  shows "MovementMode s' = MovementMode s"
proof -
  from assms obtain s3 where a: "SameMovement s s3"
    and b: "s' = Notify OnUpdateBeforeMovement (UpdateAccelerationAndFriction s3)"
    by (rule Update_decompose)
  show ?thesis unfolding b using SameMovement_fields(1) [OF a] by (simp add: Notify_def)
qed

text \<open>
  C1.  In a tick that completes, the pivot turn flag is raised only in walking or nav-walking
  mode, when the deflection (the dot product of the normalised last acceleration and last
  velocity) is below -0.173648 and the last accelerated velocity is above the minimum pivot
  speed.  A raised flag is cleared in those modes when the deflection is above 0.7071068 or
  when neither the acceleration nor the velocity exceeds the tolerance, and
  \<open>OnMovementModeChanged\<close> clears it when the new mode is neither walking nor nav-walking.
  So if the flag implies ground movement before the tick, a flag raised after it implies
  ground movement and a deflection of at most 0.7071068.
\<close>

theorem pivot_turn_flag_entry_exit:
  assumes "UpdateCharacterStateBeforeMovement s = Inr s'"
  shows
    "(\<not> bIsPivotTurning s \<and> bIsPivotTurning s' \<longrightarrow>
        (MovementMode s = MOVE_Walking \<or> MovementMode s = MOVE_NavWalking)
        \<and> MovementDeflection s < - (173648 / 1000000)
        \<and> SizeSquared2D (LastAcceleratedVelocity s) > Square (PivotTurnMinSpeed s))
     \<and> (bIsPivotTurning s
        \<and> (MovementMode s = MOVE_Walking \<or> MovementMode s = MOVE_NavWalking)
        \<and> (MovementDeflection s > 7071068 / 10000000
            \<or> (\<not> (SizeSquared2D (Acceleration s) > KINDA_SMALL_NUMBER)
                \<and> \<not> (SizeSquared2D (Velocity s) > KINDA_SMALL_NUMBER))) \<longrightarrow>
        \<not> bIsPivotTurning s')
     \<and> (HasValidData t \<and> MovementMode t \<noteq> MOVE_Walking \<and> MovementMode t \<noteq> MOVE_NavWalking \<longrightarrow>
        \<not> bIsPivotTurning (OnMovementModeChanged PreviousMovementMode PreviousCustomMode t))
     \<and> ((bIsPivotTurning s \<longrightarrow> MovementMode s = MOVE_Walking \<or> MovementMode s = MOVE_NavWalking)
        \<and> bIsPivotTurning s' \<longrightarrow>
        (MovementMode s' = MOVE_Walking \<or> MovementMode s' = MOVE_NavWalking)
        \<and> MovementDeflection s \<le> 7071068 / 10000000)"
  using Update_flag [OF assms] Update_mode [OF assms]
    OnMovementModeChanged_flag [of t PreviousMovementMode PreviousCustomMode]
  by (auto split: if_splits)

theorem pivot_turn_flag_entry_exit_witness:
  "UpdateCharacterStateBeforeMovement PivotingComponent
     = Inr (Notify OnUpdateBeforeMovement (UpdateAccelerationAndFriction PivotingComponent))
   \<and> \<not> bIsPivotTurning PivotingComponent
   \<and> bIsPivotTurning (Notify OnUpdateBeforeMovement (UpdateAccelerationAndFriction PivotingComponent))
   \<and> MovementMode PivotingComponent = MOVE_Walking
   \<and> MovementDeflection PivotingComponent < - (173648 / 1000000)
   \<and> SizeSquared2D (LastAcceleratedVelocity PivotingComponent)
        > Square (PivotTurnMinSpeed PivotingComponent)"
proof -
  let ?s' = "Notify OnUpdateBeforeMovement (UpdateAccelerationAndFriction PivotingComponent)"
  have e: "UpdateCharacterStateBeforeMovement PivotingComponent = Inr ?s'"
    by (simp add: UpdateCharacterStateBeforeMovement_def PivotingComponent_def
          DefaultComponent_def RoleAtLeastAutonomousProxy_def bind_result_def
          UpdateWalkState_def UpdatePerformGenericActionState_def UpdateSprintState_def Let_def)
  have d: "MovementDeflection PivotingComponent = - 1"
    by (simp add: MovementDeflection_def PivotingComponent_def DefaultComponent_def
          GetSafeNormal2D_def SizeSquared2D_def DotProduct_def Let_def)
  have f: "\<not> bIsPivotTurning PivotingComponent" "MovementMode PivotingComponent = MOVE_Walking"
    by (simp_all add: PivotingComponent_def DefaultComponent_def)
  have g: "bIsPivotTurning ?s'"
    using d by (simp add: UpdateAccelerationAndFriction_flag)
      (simp add: PivotingComponent_def DefaultComponent_def SizeSquared2D_def Square_def)
  show ?thesis
    using e f g pivot_turn_flag_entry_exit [OF e, of PivotingComponent MOVE_Walking 0]
    by simp
qed

lemma UpdateWalkState_total: "\<exists>t. UpdateWalkState s = Inr t"
  by (simp add: UpdateWalkState_def Walk_def UnWalk_def Let_def)

lemma UpdatePerformGenericActionState_total: "\<exists>t. UpdatePerformGenericActionState s = Inr t"
  by (simp add: UpdatePerformGenericActionState_def PerformGenericAction_def
        UnPerformGenericAction_def Let_def)

lemma UpdateSprintState_total: "\<exists>t. UpdateSprintState s = Inr t"
  by (simp add: UpdateSprintState_def Sprint_def UnSprint_def Let_def)

lemma UpdateWalkState_count:
  "UpdateWalkState s = Inr t \<Longrightarrow>
     count_list (Notifications t) OnStartSprint = count_list (Notifications s) OnStartSprint"
  by (auto simp add: UpdateWalkState_def Walk_def UnWalk_def Notify_def Let_def split: if_splits)

lemma UpdatePerformGenericActionState_count:
  "UpdatePerformGenericActionState s = Inr t \<Longrightarrow>
     count_list (Notifications t) OnStartSprint = count_list (Notifications s) OnStartSprint"
  by (auto simp add: UpdatePerformGenericActionState_def PerformGenericAction_def
        UnPerformGenericAction_def Notify_def Let_def split: if_splits)

lemma SameMovement_sprint_context:
  assumes "SameMovement s t"
  shows "CanSprintInCurrentState t = CanSprintInCurrentState s"
    "HasValidData t = HasValidData s" "bWantsToSprint t = bWantsToSprint s"
    "bExtCharacterOwner t = bExtCharacterOwner s"
    "RoleAtLeastAutonomousProxy t = RoleAtLeastAutonomousProxy s"
  using assms
  unfolding SameMovement_ex CanSprintInCurrentState_def IsMovingOnGround_def HasValidData_def
    RoleAtLeastAutonomousProxy_def
  by auto

lemma UpdateWalkState_sprinting: "UpdateWalkState s = Inr t \<Longrightarrow> bIsSprinting t = bIsSprinting s"
  by (auto simp add: UpdateWalkState_def Walk_def UnWalk_def Notify_def Let_def split: if_splits)

lemma UpdatePerformGenericActionState_sprinting:
  "UpdatePerformGenericActionState s = Inr t \<Longrightarrow> bIsSprinting t = bIsSprinting s"
  by (auto simp add: UpdatePerformGenericActionState_def PerformGenericAction_def
        UnPerformGenericAction_def Notify_def Let_def split: if_splits)

lemma UpdateSprintState_start:
  "HasValidData s \<Longrightarrow> CanSprintInCurrentState s \<Longrightarrow> bWantsToSprint s \<Longrightarrow> \<not> bIsSprinting s \<Longrightarrow>
     UpdateSprintState s = Inr (Notify OnStartSprint (s\<lparr>bIsSprinting := True\<rparr>))"
  by (simp add: UpdateSprintState_def Sprint_def Let_def CanSprintInCurrentState_def)

lemma UpdateSprintState_keep:
  "CanSprintInCurrentState s \<Longrightarrow> bWantsToSprint s \<Longrightarrow> bIsSprinting s \<Longrightarrow>
     UpdateSprintState s = Inr s"
  by (simp add: UpdateSprintState_def Let_def)

lemma UpdateAccelerationAndFriction_same:
  "\<exists>a g p. UpdateAccelerationAndFriction s
      = s\<lparr>bIsPivotTurning := p, MaxAcceleration := a, GroundFriction := g\<rparr>"
  apply (rule exI [of _ "MaxAcceleration (UpdateAccelerationAndFriction s)"])
  apply (rule exI [of _ "GroundFriction (UpdateAccelerationAndFriction s)"])
  apply (rule exI [of _ "bIsPivotTurning (UpdateAccelerationAndFriction s)"])
  apply (simp add: UpdateAccelerationAndFriction_def PivotTurnAdjusts_def Let_def)
  done

text \<open>One tick: what it does to the sprint flag, the sprint context and the notifications.\<close>

lemma Update_tick:
  assumes r: "RoleAtLeastAutonomousProxy s" and o: "bExtCharacterOwner s"
  obtains s' where "UpdateCharacterStateBeforeMovement s = Inr s'"
    and "CanSprintInCurrentState s' = CanSprintInCurrentState s"
    and "HasValidData s' = HasValidData s" and "bWantsToSprint s' = bWantsToSprint s"
    and "bExtCharacterOwner s' = bExtCharacterOwner s"
    and "RoleAtLeastAutonomousProxy s' = RoleAtLeastAutonomousProxy s"
    and "HasValidData s \<Longrightarrow> CanSprintInCurrentState s \<Longrightarrow> bWantsToSprint s \<Longrightarrow> \<not> bIsSprinting s \<Longrightarrow>
           bIsSprinting s'
           \<and> count_list (Notifications s') OnStartSprint
               = count_list (Notifications s) OnStartSprint + 1"
    and "CanSprintInCurrentState s \<Longrightarrow> bWantsToSprint s \<Longrightarrow> bIsSprinting s \<Longrightarrow>
           bIsSprinting s'
           \<and> count_list (Notifications s') OnStartSprint
               = count_list (Notifications s) OnStartSprint"
proof -
  obtain s1 where 1: "UpdateWalkState s = Inr s1" using UpdateWalkState_total by blast
  obtain s2 where 2: "UpdatePerformGenericActionState s1 = Inr s2"
    using UpdatePerformGenericActionState_total by blast
  obtain s3 where 3: "UpdateSprintState s2 = Inr s3" using UpdateSprintState_total by blast
  let ?s' = "Notify OnUpdateBeforeMovement (UpdateAccelerationAndFriction s3)"
  have e: "UpdateCharacterStateBeforeMovement s = Inr ?s'"
    using r o 1 2 3 by (simp add: UpdateCharacterStateBeforeMovement_def bind_result_def)
  have m2: "SameMovement s s2"
    using UpdateWalkState_same [OF 1] UpdatePerformGenericActionState_same [OF 2]
      SameMovement_trans by blast
  have m3: "SameMovement s s3"
    using m2 UpdateSprintState_same [OF 3] SameMovement_trans by blast
  obtain a g p where u: "UpdateAccelerationAndFriction s3
      = s3\<lparr>bIsPivotTurning := p, MaxAcceleration := a, GroundFriction := g\<rparr>"
    using UpdateAccelerationAndFriction_same by blast
  have f: "CanSprintInCurrentState ?s' = CanSprintInCurrentState s3"
    "HasValidData ?s' = HasValidData s3" "bWantsToSprint ?s' = bWantsToSprint s3"
    "bExtCharacterOwner ?s' = bExtCharacterOwner s3"
    "RoleAtLeastAutonomousProxy ?s' = RoleAtLeastAutonomousProxy s3"
    "bIsSprinting ?s' = bIsSprinting s3"
    "count_list (Notifications ?s') OnStartSprint = count_list (Notifications s3) OnStartSprint"
    unfolding u
    by (simp_all add: Notify_def CanSprintInCurrentState_def IsMovingOnGround_def HasValidData_def
          RoleAtLeastAutonomousProxy_def)
  have c2: "count_list (Notifications s2) OnStartSprint = count_list (Notifications s) OnStartSprint"
    using UpdateWalkState_count [OF 1] UpdatePerformGenericActionState_count [OF 2] by simp
  have b2: "bIsSprinting s2 = bIsSprinting s"
    using UpdateWalkState_sprinting [OF 1] UpdatePerformGenericActionState_sprinting [OF 2] by simp
  have start: "bIsSprinting ?s'
           \<and> count_list (Notifications ?s') OnStartSprint
               = count_list (Notifications s) OnStartSprint + 1"
    if "HasValidData s" "CanSprintInCurrentState s" "bWantsToSprint s" "\<not> bIsSprinting s"
  proof -
    have "UpdateSprintState s2 = Inr (Notify OnStartSprint (s2\<lparr>bIsSprinting := True\<rparr>))"
      using that SameMovement_sprint_context [OF m2] b2 by (intro UpdateSprintState_start) simp_all
    with 3 have "s3 = Notify OnStartSprint (s2\<lparr>bIsSprinting := True\<rparr>)" by simp
    then show ?thesis using f c2 by (simp add: Notify_def)
  qed
  have keep: "bIsSprinting ?s'
           \<and> count_list (Notifications ?s') OnStartSprint
               = count_list (Notifications s) OnStartSprint"
    if "CanSprintInCurrentState s" "bWantsToSprint s" "bIsSprinting s"
  proof -
    have "UpdateSprintState s2 = Inr s2"
      using that SameMovement_sprint_context [OF m2] b2 by (intro UpdateSprintState_keep) simp_all
    with 3 have "s3 = s2" by simp
    then show ?thesis using f c2 b2 that by simp
  qed
  show ?thesis
    using that [OF e] f SameMovement_sprint_context [OF m3] start keep by simp
qed

lemma RunningComponent_can_sprint: "CanSprintInCurrentState RunningComponent"
  by (simp add: CanSprintInCurrentState_def RunningComponent_def DefaultComponent_def
        IsMovingOnGround_def SizeSquared2D_def KINDA_SMALL_NUMBER_def GetSafeNormal2D_def
        DotProduct_def Let_def)

text \<open>
  C6, as stated, fails: \<open>Sprint\<close> has no test for a character that already sprints, so two
  calls in a row, both allowed, notify the owner twice.
\<close>

theorem sprint_twice_counterexample:
  "CanSprintInCurrentState RunningComponent
   \<and> bind_result (Sprint False RunningComponent) (Sprint False)
       = Inr (RunningComponent\<lparr>bIsSprinting := True,
                Notifications := [OnStartSprint, OnStartSprint]\<rparr>)"
proof -
  have v: "HasValidData RunningComponent" "bExtCharacterOwner RunningComponent"
    "Notifications RunningComponent = []"
    by (simp_all add: HasValidData_def RunningComponent_def DefaultComponent_def)
  have c: "CanSprintInCurrentState (Notify OnStartSprint (RunningComponent\<lparr>bIsSprinting := True\<rparr>))"
    using RunningComponent_can_sprint
    by (simp add: CanSprintInCurrentState_def IsMovingOnGround_def Notify_def)
  show ?thesis
    using RunningComponent_can_sprint c v
    by (simp add: Sprint_def bind_result_def HasValidData_def Notify_def)
qed

text \<open>
  C6, amended.  The tick calls \<open>Sprint\<close> only for a character that does not sprint yet: when
  the character wants to sprint and may do so, two ticks in a row with that context both
  complete, leave the character sprinting and add exactly one \<open>OnStartSprint\<close> between
  them.  \<open>Sprint\<close> itself, called twice, leaves the character sprinting both times and
  notifies on each call.
\<close>

theorem sprint_started_once_by_updates:
  assumes "RoleAtLeastAutonomousProxy s" and "HasValidData s"
    and "CanSprintInCurrentState s" and "bWantsToSprint s" and "\<not> bIsSprinting s"
  shows
    "(\<exists>s1 s2. UpdateCharacterStateBeforeMovement s = Inr s1
        \<and> UpdateCharacterStateBeforeMovement s1 = Inr s2
        \<and> bIsSprinting s1 \<and> bIsSprinting s2
        \<and> count_list (Notifications s1) OnStartSprint
            = count_list (Notifications s) OnStartSprint + 1
        \<and> count_list (Notifications s2) OnStartSprint
            = count_list (Notifications s) OnStartSprint + 1)
     \<and> (\<exists>t1 t2. Sprint False s = Inr t1 \<and> Sprint False t1 = Inr t2
        \<and> bIsSprinting t1 \<and> bIsSprinting t2
        \<and> t2 = Notify OnStartSprint t1)"
proof -
  have o: "bExtCharacterOwner s" using assms(3) by (simp add: CanSprintInCurrentState_def)
  obtain s1 where 1: "UpdateCharacterStateBeforeMovement s = Inr s1"
    and c1: "CanSprintInCurrentState s1 = CanSprintInCurrentState s"
      "bWantsToSprint s1 = bWantsToSprint s"
      "bExtCharacterOwner s1 = bExtCharacterOwner s"
      "RoleAtLeastAutonomousProxy s1 = RoleAtLeastAutonomousProxy s"
    and n1: "bIsSprinting s1 \<and> count_list (Notifications s1) OnStartSprint
               = count_list (Notifications s) OnStartSprint + 1"
    using Update_tick [OF assms(1) o] assms by metis
  have r1: "RoleAtLeastAutonomousProxy s1" "bExtCharacterOwner s1"
    using c1 assms(1) o by simp_all
  obtain s2 where 2: "UpdateCharacterStateBeforeMovement s1 = Inr s2"
    and n2: "bIsSprinting s2 \<and> count_list (Notifications s2) OnStartSprint
               = count_list (Notifications s1) OnStartSprint"
    using Update_tick [OF r1] c1 n1 assms by metis
  have a: "\<exists>s1 s2. UpdateCharacterStateBeforeMovement s = Inr s1
        \<and> UpdateCharacterStateBeforeMovement s1 = Inr s2
        \<and> bIsSprinting s1 \<and> bIsSprinting s2
        \<and> count_list (Notifications s1) OnStartSprint
            = count_list (Notifications s) OnStartSprint + 1
        \<and> count_list (Notifications s2) OnStartSprint
            = count_list (Notifications s) OnStartSprint + 1"
    using 1 2 n1 n2 by auto
  let ?t1 = "Notify OnStartSprint (s\<lparr>bIsSprinting := True\<rparr>)"
  have t1: "Sprint False s = Inr ?t1"
    using assms o by (simp add: Sprint_def)
  have ct: "CanSprintInCurrentState ?t1" "HasValidData ?t1" "bExtCharacterOwner ?t1"
    using assms o
    by (simp_all add: CanSprintInCurrentState_def IsMovingOnGround_def HasValidData_def Notify_def)
  have t2: "Sprint False ?t1 = Inr (Notify OnStartSprint ?t1)"
    using ct by (simp add: Sprint_def) (simp add: Notify_def)
  have b: "\<exists>t1 t2. Sprint False s = Inr t1 \<and> Sprint False t1 = Inr t2
        \<and> bIsSprinting t1 \<and> bIsSprinting t2
        \<and> t2 = Notify OnStartSprint t1"
    using t1 t2 by (simp add: Notify_def)
  show ?thesis using a b by blast
qed

theorem sprint_started_once_by_updates_witness:
  "RoleAtLeastAutonomousProxy RunningComponent \<and> HasValidData RunningComponent
   \<and> CanSprintInCurrentState RunningComponent \<and> bWantsToSprint RunningComponent
   \<and> \<not> bIsSprinting RunningComponent
   \<and> (\<exists>s1 s2. UpdateCharacterStateBeforeMovement RunningComponent = Inr s1
        \<and> UpdateCharacterStateBeforeMovement s1 = Inr s2
        \<and> bIsSprinting s1 \<and> bIsSprinting s2
        \<and> count_list (Notifications s1) OnStartSprint = 1
        \<and> count_list (Notifications s2) OnStartSprint = 1)"
proof -
  have h: "RoleAtLeastAutonomousProxy RunningComponent" "HasValidData RunningComponent"
    "CanSprintInCurrentState RunningComponent" "bWantsToSprint RunningComponent"
    "\<not> bIsSprinting RunningComponent"
    using RunningComponent_can_sprint
    by (simp_all add: RoleAtLeastAutonomousProxy_def HasValidData_def RunningComponent_def
          DefaultComponent_def)
  have n: "Notifications RunningComponent = []"
    by (simp add: RunningComponent_def DefaultComponent_def)
  show ?thesis
    using h n sprint_started_once_by_updates [OF h]
    by simp
qed

section \<open>Sprint capability\<close>

lemma cos_le_arccos:
  assumes "0 \<le> t" "t \<le> pi" "- 1 \<le> d" "d \<le> 1" "cos t \<le> d"
  shows "arccos d \<le> t"
proof -
  have "arccos d \<le> arccos (cos t)"
    using assms by (intro arccos_le_arccos) auto
  thus ?thesis using assms by (simp add: arccos_cos)
qed

text \<open>
  C2.  \<open>CanSprintInCurrentState\<close> is false whenever the character is crouched, a ragdoll,
  getting up or not moving on ground, whatever the other members are.  When it is true, the
  squared 2D velocity is above the tolerance and, for a positive \<open>MaxSprintAngle\<close>, the dot
  product of the normalised 2D acceleration and the forward vector is at least the cosine of
  that angle; for an angle of at most 180 degrees and a dot product in [-1,1] this says that
  the angle between the two directions is at most \<open>MaxSprintAngle\<close>.
\<close>

theorem can_sprint_gating:
  "(bIsCrouched s \<or> bIsRagdoll s \<or> bIsGettingUp s \<or> \<not> IsMovingOnGround s
      \<longrightarrow> \<not> CanSprintInCurrentState s)
   \<and> (CanSprintInCurrentState s \<longrightarrow>
        SizeSquared2D (Velocity s) > KINDA_SMALL_NUMBER
        \<and> (0 < MaxSprintAngle s \<longrightarrow>
             DotProduct (GetSafeNormal2D (Acceleration s)) (ForwardVector s)
               \<ge> cos (DegreesToRadians (MaxSprintAngle s))
             \<and> (MaxSprintAngle s \<le> 180
                 \<and> \<bar>DotProduct (GetSafeNormal2D (Acceleration s)) (ForwardVector s)\<bar> \<le> 1 \<longrightarrow>
                  arccos (DotProduct (GetSafeNormal2D (Acceleration s)) (ForwardVector s))
                    \<le> DegreesToRadians (MaxSprintAngle s))))"
proof -
  have "arccos (DotProduct (GetSafeNormal2D (Acceleration s)) (ForwardVector s))
                    \<le> DegreesToRadians (MaxSprintAngle s)"
    if "0 < MaxSprintAngle s" "MaxSprintAngle s \<le> 180"
      "\<bar>DotProduct (GetSafeNormal2D (Acceleration s)) (ForwardVector s)\<bar> \<le> 1"
      "DotProduct (GetSafeNormal2D (Acceleration s)) (ForwardVector s)
               \<ge> cos (DegreesToRadians (MaxSprintAngle s))"
  proof (rule cos_le_arccos)
    show "0 \<le> DegreesToRadians (MaxSprintAngle s)" using that by (simp add: DegreesToRadians_def)
    show "DegreesToRadians (MaxSprintAngle s) \<le> pi" using that
      by (simp add: DegreesToRadians_def) 
  qed (use that in auto)
  then show ?thesis
    by (auto simp add: CanSprintInCurrentState_def)
qed

theorem can_sprint_gating_witness:
  "bIsCrouched CrouchedComponent \<and> \<not> CanSprintInCurrentState CrouchedComponent
   \<and> CanSprintInCurrentState RunningComponent
   \<and> SizeSquared2D (Velocity RunningComponent) > KINDA_SMALL_NUMBER
   \<and> 0 < MaxSprintAngle RunningComponent \<and> MaxSprintAngle RunningComponent \<le> 180
   \<and> arccos (DotProduct (GetSafeNormal2D (Acceleration RunningComponent))
                (ForwardVector RunningComponent))
        \<le> DegreesToRadians (MaxSprintAngle RunningComponent)"
proof -
  have c: "bIsCrouched CrouchedComponent"
    by (simp add: CrouchedComponent_def)
  have d: "DotProduct (GetSafeNormal2D (Acceleration RunningComponent))
             (ForwardVector RunningComponent) = 1"
    by (simp add: RunningComponent_def DefaultComponent_def GetSafeNormal2D_def
          SizeSquared2D_def DotProduct_def Let_def)
  have m: "MaxSprintAngle RunningComponent = 50"
    by (simp add: RunningComponent_def DefaultComponent_def)
  show ?thesis
    using c d m RunningComponent_can_sprint
      can_sprint_gating [of CrouchedComponent] can_sprint_gating [of RunningComponent]
    by simp
qed

section \<open>Braking\<close>

lemma BrakingLoop_forward:
  "BrakingLoop Friction z RevAccel OldVel R V = Some V' \<Longrightarrow>
     V' = V \<or> 0 < DotProduct V' OldVel"
proof (induction Friction z RevAccel OldVel R V rule: BrakingLoop.induct)
  case (1 Friction z RevAccel OldVel R V)
  show ?case
  proof (cases "R \<ge> MIN_TICK_TIME")
    case False
    with "1.prems" show ?thesis by (simp add: BrakingLoop.simps [of _ _ _ _ R])
  next
    case True
    define dt where "dt = (if R > MaxTimeStep \<and> \<not> z then min MaxTimeStep (R * (1 / 2)) else R)"
    define W where "W = VSub V (VScale dt (VAdd (VScale Friction V) RevAccel))"
    have nz: "\<not> DotProduct W OldVel \<le> 0"
      using "1.prems" True unfolding W_def dt_def
      by (subst (asm) BrakingLoop.simps) (auto simp add: Let_def split: if_splits)
    have rec: "BrakingLoop Friction z RevAccel OldVel (R - dt) W = Some V'"
      using "1.prems" True nz unfolding W_def dt_def
      by (subst (asm) BrakingLoop.simps) (auto simp add: Let_def split: if_splits)
    have "V' = W \<or> 0 < DotProduct V' OldVel"
      using "1.IH" [OF True dt_def W_def nz rec] .
    then show ?thesis using nz by auto
  qed
qed

lemma SizeSquared_nonneg: "0 \<le> SizeSquared v"
  by (simp add: SizeSquared_def)

lemma DotProduct_self: "DotProduct v v = SizeSquared v"
  by (simp add: DotProduct_def SizeSquared_def)

lemma SizeSquared_pos: "\<not> IsZero v \<Longrightarrow> 0 < SizeSquared v"
proof -
  assume a: "\<not> IsZero v"
  have "X v * X v + Y v * Y v + Z v * Z v = 0 \<longleftrightarrow> X v = 0 \<and> Y v = 0 \<and> Z v = 0"
    by (metis (no_types, opaque_lifting) add_nonneg_eq_0_iff mult_eq_0_iff
          zero_le_square add_nonneg_nonneg)
  then have "SizeSquared v \<noteq> 0" using a by (simp add: SizeSquared_def IsZero_def)
  then show ?thesis using SizeSquared_nonneg [of v] by linarith
qed

lemma DotProduct_zero [simp]: "DotProduct ZeroVector v = 0"
  by (simp add: DotProduct_def ZeroVector_def)

lemma Size_gt:
  assumes "0 \<le> t" "SizeSquared v > t * t"
  shows "Size v > t"
proof -
  have "sqrt (t * t) < sqrt (SizeSquared v)"
    using assms(2) by (rule real_sqrt_less_mono)
  moreover have "sqrt (t * t) = t" using assms(1) by simp
  ultimately show ?thesis by (simp add: Size_def)
qed


lemma GetBrakingFrictionFactor_owner:
  "bExtCharacterOwner s \<Longrightarrow> \<exists>f. GetBrakingFrictionFactor s = Inr f"
  by (simp add: GetBrakingFrictionFactor_def)

lemma ApplyVelocityBraking_cases:
  assumes "bExtCharacterOwner s"
  obtains (skipped) "ApplyVelocityBraking DeltaTime Friction BrakingDeceleration s = Inr s"
      "\<not> BrakingApplies DeltaTime Friction BrakingDeceleration s"
  | (stopped) "ApplyVelocityBraking DeltaTime Friction BrakingDeceleration s
        = Inr (s\<lparr>Velocity := ZeroVector\<rparr>)"
  | (slowed) V where "ApplyVelocityBraking DeltaTime Friction BrakingDeceleration s
        = Inr (s\<lparr>Velocity := V\<rparr>)"
      "V = Velocity s \<or> 0 < DotProduct V (Velocity s)"
      "\<not> IsZero (Velocity s)"
      "SizeSquared V > Square (BrakingSpeedTolerance s)"
      "0 < BrakingDeceleration \<longrightarrow> SizeSquared V > BRAKE_TO_STOP_VELOCITY * BRAKE_TO_STOP_VELOCITY"
proof -
  obtain f where f: "GetBrakingFrictionFactor s = Inr f"
    using GetBrakingFrictionFactor_owner [OF assms] by blast
  define F1 where "F1 = max 0 (Friction * max 0 f)"
  define B1 where "B1 = max 0 BrakingDeceleration"
  define RevAccel where "RevAccel = (if B1 = 0 then ZeroVector
                                 else VScale B1 (GetSafeNormal (Velocity s)))"
  show ?thesis
  proof (cases "BrakingApplies DeltaTime Friction BrakingDeceleration s")
    case False
    then have "ApplyVelocityBraking DeltaTime Friction BrakingDeceleration s = Inr s"
      using f
      by (auto simp add: ApplyVelocityBraking_def BrakingApplies_def bind_result_def Let_def
            max_def split: if_splits)
    then show ?thesis using False skipped by blast
  next
    case True
    then have g: "\<not> IsZero (Velocity s)" "HasValidData s" "\<not> bHasAnimRootMotion s"
      "\<not> DeltaTime < MIN_TICK_TIME" "\<not> (F1 = 0 \<and> B1 = 0)"
      using f by (auto simp add: BrakingApplies_def F1_def B1_def max_def split: if_splits)
    have unfold: "ApplyVelocityBraking DeltaTime Friction BrakingDeceleration s =
       (case BrakingLoop F1 (F1 = 0) RevAccel (Velocity s) DeltaTime (Velocity s) of
          None \<Rightarrow> Inr (s\<lparr>Velocity := ZeroVector\<rparr>)
        | Some V \<Rightarrow>
            (if SizeSquared V \<le> Square (BrakingSpeedTolerance s)
                \<or> (\<not> B1 = 0 \<and> SizeSquared V \<le> BRAKE_TO_STOP_VELOCITY * BRAKE_TO_STOP_VELOCITY)
             then Inr (s\<lparr>Velocity := ZeroVector\<rparr>)
             else Inr (s\<lparr>Velocity := V\<rparr>)))"
      using g f unfolding ApplyVelocityBraking_def bind_result_def Let_def F1_def B1_def RevAccel_def
      by auto
    show ?thesis
    proof (cases "BrakingLoop F1 (F1 = 0) RevAccel (Velocity s) DeltaTime (Velocity s)")
      case None
      then show ?thesis using unfold stopped by simp
    next
      case (Some V)
      show ?thesis
      proof (cases "SizeSquared V \<le> Square (BrakingSpeedTolerance s)
                \<or> (\<not> B1 = 0 \<and> SizeSquared V \<le> BRAKE_TO_STOP_VELOCITY * BRAKE_TO_STOP_VELOCITY)")
        case True
        then show ?thesis using unfold Some stopped by simp
      next
        case False
        have 1: "ApplyVelocityBraking DeltaTime Friction BrakingDeceleration s
                  = Inr (s\<lparr>Velocity := V\<rparr>)"
          using unfold Some False by simp
        have 2: "V = Velocity s \<or> 0 < DotProduct V (Velocity s)"
          using BrakingLoop_forward [OF Some] .
        have 3: "0 < BrakingDeceleration \<longrightarrow>
                   SizeSquared V > BRAKE_TO_STOP_VELOCITY * BRAKE_TO_STOP_VELOCITY"
          using False by (auto simp add: B1_def max_def)
        show ?thesis using slowed [OF 1 2 g(1) _ 3] False by auto
      qed
    qed
  qed
qed

text \<open>
  C10, amended.  For a component with an owner, \<open>ApplyVelocityBraking\<close> returns, and the new
  velocity has a non-negative dot product with the old one.  When the call brakes (non-zero
  velocity, valid data, no root motion, a tick of at least \<open>MIN_TICK_TIME\<close>, and friction
  or braking deceleration above zero), the new velocity is either exactly the zero vector, or
  it has a positive dot product with the old one and a speed above \<open>BrakingSpeedTolerance\<close>
  and, for a braking deceleration above zero, above \<open>BRAKE_TO_STOP_VELOCITY\<close>.
\<close>

theorem braking_never_reverses:
  assumes "bExtCharacterOwner s"
  shows "\<exists>s'. ApplyVelocityBraking DeltaTime Friction BrakingDeceleration s = Inr s'
     \<and> 0 \<le> DotProduct (Velocity s') (Velocity s)
     \<and> (BrakingApplies DeltaTime Friction BrakingDeceleration s \<longrightarrow>
          Velocity s' = ZeroVector
          \<or> (0 < DotProduct (Velocity s') (Velocity s)
              \<and> SizeSquared (Velocity s') > Square (BrakingSpeedTolerance s)
              \<and> (0 \<le> BrakingSpeedTolerance s \<longrightarrow> Size (Velocity s') > BrakingSpeedTolerance s)
              \<and> (0 < BrakingDeceleration \<longrightarrow> Size (Velocity s') > BRAKE_TO_STOP_VELOCITY)))"
proof (rule ApplyVelocityBraking_cases [OF assms, of DeltaTime Friction BrakingDeceleration],
    goal_cases)
  case 1
  then show ?thesis
    using SizeSquared_nonneg [of "Velocity s"] by (simp add: DotProduct_self)
next
  case 2
  then show ?thesis by simp
next
  case slowed: (3 V)
  have d: "0 < DotProduct V (Velocity s)"
    using slowed(2) SizeSquared_pos [OF slowed(3)] by (auto simp add: DotProduct_self)
  have t: "0 \<le> BrakingSpeedTolerance s \<longrightarrow> Size V > BrakingSpeedTolerance s"
    using slowed(4) Size_gt [of "BrakingSpeedTolerance s" V] by (simp add: Square_def)
  have b: "0 < BrakingDeceleration \<longrightarrow> Size V > BRAKE_TO_STOP_VELOCITY"
    using slowed(5) Size_gt [of BRAKE_TO_STOP_VELOCITY V] by (simp add: BRAKE_TO_STOP_VELOCITY_def)
  show ?thesis using slowed(1,4) d t b by simp
qed

lemma BrakingComponent_step:
  "ApplyVelocityBraking (1 / 60) 6 0 BrakingComponent
     = Inr (BrakingComponent\<lparr>Velocity := FVector 270 0 0\<rparr>)"
proof -
  have l: "BrakingLoop 6 False ZeroVector (FVector 300 0 0) (1 / 60) (FVector 300 0 0)
            = Some (FVector 270 0 0)"
    apply (subst BrakingLoop.simps)
    apply (simp add: MIN_TICK_TIME_def MaxTimeStep_def Let_def VSub_def VScale_def VAdd_def
          ZeroVector_def DotProduct_def)
    apply (subst BrakingLoop.simps)
    apply (simp add: MIN_TICK_TIME_def)
    done
  show ?thesis
    by (simp add: ApplyVelocityBraking_def BrakingComponent_def DefaultComponent_def
          HasValidData_def IsZero_def MIN_TICK_TIME_def GetBrakingFrictionFactor_def
          bind_result_def Let_def l SizeSquared_def Square_def)
qed

theorem braking_never_reverses_witness:
  "bExtCharacterOwner BrakingComponent
   \<and> BrakingApplies (1 / 60) 6 0 BrakingComponent
   \<and> (\<exists>s'. ApplyVelocityBraking (1 / 60) 6 0 BrakingComponent = Inr s'
        \<and> 0 \<le> DotProduct (Velocity s') (Velocity BrakingComponent)
        \<and> (Velocity s' = ZeroVector
            \<or> 0 < DotProduct (Velocity s') (Velocity BrakingComponent)
              \<and> SizeSquared (Velocity s') > Square (BrakingSpeedTolerance BrakingComponent)))"
proof -
  have h: "bExtCharacterOwner BrakingComponent"
    by (simp add: BrakingComponent_def DefaultComponent_def)
  have a: "BrakingApplies (1 / 60) 6 0 BrakingComponent"
    by (simp add: BrakingApplies_def BrakingComponent_def DefaultComponent_def IsZero_def
          HasValidData_def MIN_TICK_TIME_def GetBrakingFrictionFactor_def)
  show ?thesis
    using h a braking_never_reverses [OF h, of "1 / 60" 6 0]
    by auto
qed

text \<open>
  C10, as stated, fails for zero friction and zero braking deceleration: the call returns at
  once and keeps a velocity whose speed is below the tolerance.
\<close>

theorem braking_tolerance_counterexample:
  "ApplyVelocityBraking 1 0 0 CreepingComponent = Inr CreepingComponent
   \<and> Size (Velocity CreepingComponent) \<le> BrakingSpeedTolerance CreepingComponent
   \<and> Velocity CreepingComponent \<noteq> ZeroVector"
proof -
  have "sqrt (1 / 4) = 1 / 2"
    by (rule real_sqrt_unique) (simp_all add: power2_eq_square)
  then show ?thesis
    by (simp add: ApplyVelocityBraking_def CreepingComponent_def DefaultComponent_def
          HasValidData_def IsZero_def MIN_TICK_TIME_def GetBrakingFrictionFactor_def
          bind_result_def Let_def Size_def SizeSquared_def ZeroVector_def)
qed

section \<open>Stop prediction\<close>


























section \<open>Turn in place\<close>

lemma PhysicsRotation_standing:
  "StandsAndCanTurn s \<Longrightarrow>
     PhysicsRotation E dt Cur Ctl s =
       (let s1 = ResetControllerDesireRotationState s;
            s2 = fst (TurnInPlaceStep dt Cur Ctl s1);
            CurrentYaw = snd (TurnInPlaceStep dt Cur Ctl s1)
        in if RotatorEquals (FRotator (Pitch Cur) CurrentYaw (Roll Cur))
                (TurnInPlaceTargetRotation Ctl CurrentYaw s2) AngleTolerance
           then Inr (s2\<lparr>TurnInPlaceTargetYaw := PosInfinity\<rparr>)
           else Inr s2)"
  by (auto simp add: StandsAndCanTurn_def PhysicsRotation_def StandingRotation_def Let_def
        split_beta CanTurnInPlaceInCurrentState_def ResetControllerDesireRotationState_def)

lemma TurnInPlaceStep_restore:
  "TurnInPlaceStep dt Cur Ctl (s\<lparr>TurnInPlaceTargetYaw := NegInfinity\<rparr>)
     = TurnInPlaceStep dt Cur Ctl (s\<lparr>TurnInPlaceTargetYaw := PosInfinity\<rparr>)"
  by (simp add: TurnInPlaceStep_def)

lemma DelayedTurnInPlace_not_suspended:
  "TurnInPlaceTargetYaw s \<noteq> NegInfinity \<Longrightarrow>
     TurnInPlaceTargetYaw (DelayedTurnInPlace dt Cur Ctl s) \<noteq> NegInfinity"
  by (simp add: DelayedTurnInPlace_def Let_def)

lemma ImmediateTurnInPlace_not_suspended:
  "TurnInPlaceTargetYaw s \<noteq> NegInfinity \<Longrightarrow>
     TurnInPlaceTargetYaw (fst (ImmediateTurnInPlace Cur Ctl s)) \<noteq> NegInfinity"
  by (simp add: ImmediateTurnInPlace_def Let_def split_beta)

lemma TurnInPlaceStep_not_suspended:
  "TurnInPlaceTargetYaw (fst (TurnInPlaceStep dt Cur Ctl s)) \<noteq> NegInfinity"
proof -
  define s1 where "s1 = (if \<not> IsFinite (TurnInPlaceTargetYaw s) \<and> IsNegative (TurnInPlaceTargetYaw s)
                then s\<lparr>TurnInPlaceTargetYaw := PosInfinity\<rparr> else s)"
  have "TurnInPlaceTargetYaw s1 \<noteq> NegInfinity"
    unfolding s1_def by (cases "TurnInPlaceTargetYaw s") simp_all
  then show ?thesis
    using DelayedTurnInPlace_not_suspended [of s1 dt Cur Ctl]
      ImmediateTurnInPlace_not_suspended [of s1 Cur Ctl]
    unfolding TurnInPlaceStep_def Let_def s1_def [symmetric] by simp
qed

lemma ResetControllerDesireRotationState_upd:
  "ResetControllerDesireRotationState (s\<lparr>TurnInPlaceTargetYaw := y\<rparr>)
     = (ResetControllerDesireRotationState s)\<lparr>TurnInPlaceTargetYaw := y\<rparr>"
  by (simp add: ResetControllerDesireRotationState_def)

lemma StandsAndCanTurn_upd [simp]:
  "StandsAndCanTurn (s\<lparr>TurnInPlaceTargetYaw := y\<rparr>) = StandsAndCanTurn s"
  by (simp add: StandsAndCanTurn_def RoleAtLeastAutonomousProxy_def HasValidData_def
        CanTurnInPlaceInCurrentState_def)

text \<open>
  C7.  For a standing character that follows the controller and can turn in place,
  \<open>PhysicsRotation\<close> treats a suspended target yaw (minus infinity) exactly like "not
  turning" (plus infinity): the yaw is restored before the turn step is computed.  The call
  returns, its target yaw is never minus infinity, and it is plus infinity when the rotation
  has reached its target.  \<open>ResetTurnInPlaceState\<close>, which the other branches call, stores
  minus infinity.
\<close>

theorem turn_in_place_sentinels:
  assumes "StandsAndCanTurn s"
  shows
    "PhysicsRotation E DeltaSeconds CurrentRotation ControlRotation
         (s\<lparr>TurnInPlaceTargetYaw := NegInfinity\<rparr>)
       = PhysicsRotation E DeltaSeconds CurrentRotation ControlRotation
           (s\<lparr>TurnInPlaceTargetYaw := PosInfinity\<rparr>)
     \<and> (\<exists>s'. PhysicsRotation E DeltaSeconds CurrentRotation ControlRotation s = Inr s'
          \<and> TurnInPlaceTargetYaw s' \<noteq> NegInfinity
          \<and> (RotatorEquals
                (FRotator (Pitch CurrentRotation)
                   (snd (TurnInPlaceStep DeltaSeconds CurrentRotation ControlRotation
                           (ResetControllerDesireRotationState s)))
                   (Roll CurrentRotation))
                (TurnInPlaceTargetRotation ControlRotation
                   (snd (TurnInPlaceStep DeltaSeconds CurrentRotation ControlRotation
                           (ResetControllerDesireRotationState s)))
                   (fst (TurnInPlaceStep DeltaSeconds CurrentRotation ControlRotation
                           (ResetControllerDesireRotationState s))))
                AngleTolerance
              \<longrightarrow> TurnInPlaceTargetYaw s' = PosInfinity))
     \<and> (\<exists>t. ResetTurnInPlaceState s = Inr t \<and> TurnInPlaceTargetYaw t = NegInfinity)"
proof (intro conjI)
  show "PhysicsRotation E DeltaSeconds CurrentRotation ControlRotation
         (s\<lparr>TurnInPlaceTargetYaw := NegInfinity\<rparr>)
       = PhysicsRotation E DeltaSeconds CurrentRotation ControlRotation
           (s\<lparr>TurnInPlaceTargetYaw := PosInfinity\<rparr>)"
    using assms
    by (simp add: PhysicsRotation_standing ResetControllerDesireRotationState_upd
          TurnInPlaceStep_restore Let_def)
next
  let ?st = "TurnInPlaceStep DeltaSeconds CurrentRotation ControlRotation
               (ResetControllerDesireRotationState s)"
  have n: "TurnInPlaceTargetYaw (fst ?st) \<noteq> NegInfinity"
    by (rule TurnInPlaceStep_not_suspended)
  show "\<exists>s'. PhysicsRotation E DeltaSeconds CurrentRotation ControlRotation s = Inr s'
          \<and> TurnInPlaceTargetYaw s' \<noteq> NegInfinity
          \<and> (RotatorEquals
                (FRotator (Pitch CurrentRotation) (snd ?st) (Roll CurrentRotation))
                (TurnInPlaceTargetRotation ControlRotation (snd ?st) (fst ?st))
                AngleTolerance
              \<longrightarrow> TurnInPlaceTargetYaw s' = PosInfinity)"
    using n by (simp add: PhysicsRotation_standing [OF assms] Let_def)
next
  show "\<exists>t. ResetTurnInPlaceState s = Inr t \<and> TurnInPlaceTargetYaw t = NegInfinity"
    using assms
    by (simp add: ResetTurnInPlaceState_def StandsAndCanTurn_def CanTurnInPlaceInCurrentState_def)
qed

lemma SuspendedComponent_stands: "StandsAndCanTurn SuspendedComponent"
  by (simp add: StandsAndCanTurn_def SuspendedComponent_def DefaultComponent_def
        RoleAtLeastAutonomousProxy_def HasValidData_def CanTurnInPlaceInCurrentState_def
        SizeSquared2D_def ZeroVector_def KINDA_SMALL_NUMBER_def)

lemma RotatorEquals_zero: "RotatorEquals (FRotator 0 0 0) (FRotator 0 0 0) AngleTolerance"
  by (simp add: RotatorEquals_def NormalizeAxis_def ClampAxis_def AngleTolerance_def)

lemma RotatorEquals_ninety: "\<not> RotatorEquals (FRotator 0 0 0) (FRotator 0 90 0) AngleTolerance"
  by (simp add: RotatorEquals_def NormalizeAxis_def ClampAxis_def AngleTolerance_def)

lemma SuspendedComponent_resumes:
  "PhysicsRotation NoRotationFunctions (1 / 60) (FRotator 0 0 0) (FRotator 0 10 0)
     SuspendedComponent
   = Inr (SuspendedComponent\<lparr>TurnInPlaceTargetYaw := PosInfinity,
            bCanEnforceTurnInPlaceRotationMaxDistance := True\<rparr>)"
proof -
  have st: "TurnInPlaceStep (1 / 60) (FRotator 0 0 0) (FRotator 0 10 0)
     (ResetControllerDesireRotationState SuspendedComponent)
   = (SuspendedComponent\<lparr>TurnInPlaceTargetYaw := PosInfinity,
            bCanEnforceTurnInPlaceRotationMaxDistance := True\<rparr>, 0)"
    by (simp add: Let_def
        ResetControllerDesireRotationState_def TurnInPlaceStep_def ImmediateTurnInPlace_def
        SuspendedComponent_def DefaultComponent_def FindDeltaAngleDegrees_def Clamp_def)
  have tr: "TurnInPlaceTargetRotation (FRotator 0 10 0) 0
      (SuspendedComponent\<lparr>TurnInPlaceTargetYaw := PosInfinity,
            bCanEnforceTurnInPlaceRotationMaxDistance := True\<rparr>) = FRotator 0 0 0"
    by (simp add: TurnInPlaceTargetRotation_def ShouldRemainVertical_def)
  show ?thesis
    unfolding PhysicsRotation_standing [OF SuspendedComponent_stands] Let_def st fst_conv snd_conv tr
    using RotatorEquals_zero by simp
qed

lemma SuspendedComponent_turns:
  "PhysicsRotation NoRotationFunctions (1 / 60) (FRotator 0 0 0) (FRotator 0 100 0)
     SuspendedComponent
   = Inr (SuspendedComponent\<lparr>TurnInPlaceTargetYaw := Finite 90\<rparr>)"
proof -
  have a: "TurnInPlaceAngle 100 100 60 = 90"
    by (simp add: TurnInPlaceAngle_def IntDivide_def)
  have st: "TurnInPlaceStep (1 / 60) (FRotator 0 0 0) (FRotator 0 100 0)
     (ResetControllerDesireRotationState SuspendedComponent)
   = (SuspendedComponent\<lparr>TurnInPlaceTargetYaw := Finite 90\<rparr>, 0)"
    by (simp add: Let_def a UnwindDegrees_def
        ResetControllerDesireRotationState_def TurnInPlaceStep_def ImmediateTurnInPlace_def
        SuspendedComponent_def DefaultComponent_def FindDeltaAngleDegrees_def Clamp_def)
  have tr: "TurnInPlaceTargetRotation (FRotator 0 100 0) 0
      (SuspendedComponent\<lparr>TurnInPlaceTargetYaw := Finite 90\<rparr>) = FRotator 0 90 0"
    by (simp add: TurnInPlaceTargetRotation_def ShouldRemainVertical_def)
  show ?thesis
    unfolding PhysicsRotation_standing [OF SuspendedComponent_stands] Let_def st fst_conv snd_conv tr
    using RotatorEquals_ninety by simp
qed

theorem turn_in_place_sentinels_witness:
  "StandsAndCanTurn SuspendedComponent
   \<and> TurnInPlaceTargetYaw DefaultComponent = PosInfinity
   \<and> PhysicsRotation NoRotationFunctions (1 / 60) (FRotator 0 0 0) (FRotator 0 100 0)
        (SuspendedComponent\<lparr>TurnInPlaceTargetYaw := NegInfinity\<rparr>)
       = PhysicsRotation NoRotationFunctions (1 / 60) (FRotator 0 0 0) (FRotator 0 100 0)
           (SuspendedComponent\<lparr>TurnInPlaceTargetYaw := PosInfinity\<rparr>)
   \<and> (\<exists>s'. PhysicsRotation NoRotationFunctions (1 / 60) (FRotator 0 0 0) (FRotator 0 100 0)
              SuspendedComponent = Inr s'
          \<and> TurnInPlaceTargetYaw s' \<noteq> NegInfinity)
   \<and> PhysicsRotation NoRotationFunctions (1 / 60) (FRotator 0 0 0) (FRotator 0 100 0)
        SuspendedComponent
       = Inr (SuspendedComponent\<lparr>TurnInPlaceTargetYaw := Finite 90\<rparr>)
   \<and> PhysicsRotation NoRotationFunctions (1 / 60) (FRotator 0 0 0) (FRotator 0 10 0)
        SuspendedComponent
       = Inr (SuspendedComponent\<lparr>TurnInPlaceTargetYaw := PosInfinity,
                bCanEnforceTurnInPlaceRotationMaxDistance := True\<rparr>)"
proof -
  have d: "TurnInPlaceTargetYaw DefaultComponent = PosInfinity"
    by (simp add: DefaultComponent_def)
  show ?thesis
    using d SuspendedComponent_stands SuspendedComponent_resumes SuspendedComponent_turns
      turn_in_place_sentinels [OF SuspendedComponent_stands,
        of NoRotationFunctions "1 / 60" "FRotator 0 0 0" "FRotator 0 100 0"]
    by blast
qed

section \<open>Gait scale, play rate and speed warp\<close>

lemma GetRangePct_bounds:
  "MinV \<le> v \<Longrightarrow> v \<le> MaxV \<Longrightarrow> 0 \<le> GetRangePct MinV MaxV v \<and> GetRangePct MinV MaxV v \<le> 1"
  by (auto simp add: GetRangePct_def Let_def divide_le_eq_1 SMALL_NUMBER_def)

lemma GetRangePct_mono:
  "MinV \<le> MaxV \<Longrightarrow> v \<le> w \<Longrightarrow> GetRangePct MinV MaxV v \<le> GetRangePct MinV MaxV w"
  by (auto simp add: GetRangePct_def Let_def divide_right_mono SMALL_NUMBER_def)

lemma GetRangePct_at_min: "MinV < MaxV \<Longrightarrow> GetRangePct MinV MaxV MinV = 0"
  by (simp add: GetRangePct_def Let_def)

lemma GetRangePct_at_max: "MinV < MaxV \<Longrightarrow> GetRangePct MinV MaxV MaxV = 1"
  by (simp add: GetRangePct_def Let_def)

lemma StandingGait_range:
  "0 \<le> GroundSpeed s \<Longrightarrow> 0 \<le> fst (StandingGait s) \<and> fst (StandingGait s) \<le> 3"
  using GetRangePct_bounds [of 0 "GroundSpeed s" "WalkSpeed s"]
        GetRangePct_bounds [of "WalkSpeed s" "GroundSpeed s" "RunSpeed s"]
        GetRangePct_bounds [of "RunSpeed s" "GroundSpeed s" "SprintSpeed s"]
  by (auto simp add: StandingGait_def Let_def)

lemma CrouchedGait_range:
  "0 \<le> GroundSpeed s \<Longrightarrow> 0 \<le> fst (CrouchedGait s) \<and> fst (CrouchedGait s) \<le> 2"
  using GetRangePct_bounds [of 0 "GroundSpeed s" "WalkSpeedCrouched s"]
        GetRangePct_bounds [of "WalkSpeedCrouched s" "GroundSpeed s" "RunSpeedCrouched s"]
  by (auto simp add: CrouchedGait_def Let_def)

lemma StandingGait_mono:
  assumes "0 < WalkSpeed s" "WalkSpeed s < RunSpeed s" "RunSpeed s < SprintSpeed s"
    and "0 \<le> g1" "g1 \<le> g2"
  shows "fst (StandingGait (s\<lparr>GroundSpeed := g1\<rparr>)) \<le> fst (StandingGait (s\<lparr>GroundSpeed := g2\<rparr>))"
proof -
  let ?W = "WalkSpeed s" and ?R = "RunSpeed s" and ?S = "SprintSpeed s"
  have b1: "\<And>g. 0 \<le> g \<Longrightarrow> g \<le> ?W \<Longrightarrow> 0 \<le> GetRangePct 0 ?W g \<and> GetRangePct 0 ?W g \<le> 1"
    using GetRangePct_bounds by simp
  have b2: "\<And>g. ?W \<le> g \<Longrightarrow> g \<le> ?R \<Longrightarrow> 0 \<le> GetRangePct ?W ?R g \<and> GetRangePct ?W ?R g \<le> 1"
    using GetRangePct_bounds by simp
  have b3: "\<And>g. ?R \<le> g \<Longrightarrow> g \<le> ?S \<Longrightarrow> 0 \<le> GetRangePct ?R ?S g \<and> GetRangePct ?R ?S g \<le> 1"
    using GetRangePct_bounds by simp
  have m1: "GetRangePct 0 ?W g1 \<le> GetRangePct 0 ?W g2"
    using assms GetRangePct_mono by simp
  have m2: "GetRangePct ?W ?R g1 \<le> GetRangePct ?W ?R g2"
    using assms GetRangePct_mono by simp
  have m3: "GetRangePct ?R ?S g1 \<le> GetRangePct ?R ?S g2"
    using assms GetRangePct_mono by simp
  consider (a) "g2 \<le> ?W" | (b) "?W < g2" "g2 \<le> ?R" | (c) "?R < g2" "g2 \<le> ?S" | (d) "?S < g2"
    by linarith
  then show ?thesis
  proof cases
    case a
    then show ?thesis using assms m1 by (simp add: StandingGait_def Let_def)
  next
    case b
    then show ?thesis using assms m2 b1 [of g1] b2 [of g2]
      by (auto simp add: StandingGait_def Let_def)
  next
    case c
    then show ?thesis using assms m3 b1 [of g1] b2 [of g1] b3 [of g2]
      by (auto simp add: StandingGait_def Let_def)
  next
    case d
    then show ?thesis using assms b1 [of g1] b2 [of g1] b3 [of g1]
      by (auto simp add: StandingGait_def Let_def)
  qed
qed

lemma CrouchedGait_mono:
  assumes "0 < WalkSpeedCrouched s" "WalkSpeedCrouched s < RunSpeedCrouched s"
    and "0 \<le> g1" "g1 \<le> g2"
  shows "fst (CrouchedGait (s\<lparr>GroundSpeed := g1\<rparr>)) \<le> fst (CrouchedGait (s\<lparr>GroundSpeed := g2\<rparr>))"
proof -
  let ?W = "WalkSpeedCrouched s" and ?R = "RunSpeedCrouched s"
  have b1: "\<And>g. 0 \<le> g \<Longrightarrow> g \<le> ?W \<Longrightarrow> 0 \<le> GetRangePct 0 ?W g \<and> GetRangePct 0 ?W g \<le> 1"
    using GetRangePct_bounds by simp
  have b2: "\<And>g. ?W \<le> g \<Longrightarrow> g \<le> ?R \<Longrightarrow> 0 \<le> GetRangePct ?W ?R g \<and> GetRangePct ?W ?R g \<le> 1"
    using GetRangePct_bounds by simp
  have m1: "GetRangePct 0 ?W g1 \<le> GetRangePct 0 ?W g2"
    using assms GetRangePct_mono by simp
  have m2: "GetRangePct ?W ?R g1 \<le> GetRangePct ?W ?R g2"
    using assms GetRangePct_mono by simp
  consider (a) "g2 \<le> ?W" | (b) "?W < g2" "g2 \<le> ?R" | (c) "?R < g2"
    by linarith
  then show ?thesis
  proof cases
    case a
    then show ?thesis using assms m1 by (simp add: CrouchedGait_def Let_def)
  next
    case b
    then show ?thesis using assms m2 b1 [of g1] b2 [of g2]
      by (auto simp add: CrouchedGait_def Let_def)
  next
    case c
    then show ?thesis using assms b1 [of g1] b2 [of g1]
      by (auto simp add: CrouchedGait_def Let_def)
  qed
qed

lemma NativeUpdateGaitScale_GaitScale:
  "GaitScale (NativeUpdateGaitScale I fl s dt) =
     (if Anim_bIsMoving2D s
         \<and> (Anim_MovementMode s = MOVE_Walking \<or> Anim_MovementMode s = MOVE_NavWalking)
         \<and> \<not> Anim_bIsCrouched s
      then fst (StandingGait s) else GaitScale s)"
  by (simp add: NativeUpdateGaitScale_def Let_def split_beta)

lemma NativeUpdateGaitScale_GaitScaleCrouched:
  "GaitScaleCrouched (NativeUpdateGaitScale I fl s dt) =
     (if Anim_bIsMoving2D s
         \<and> (Anim_MovementMode s = MOVE_Walking \<or> Anim_MovementMode s = MOVE_NavWalking)
         \<and> Anim_bIsCrouched s
      then fst (CrouchedGait s) else GaitScaleCrouched s)"
  by (simp add: NativeUpdateGaitScale_def Let_def split_beta)

lemma split_dev:
  "- 1 \<le> d \<Longrightarrow> - (15/100) \<le> PlayRateDeviation d \<and> - (85/100) \<le> SpeedWarpDeviation d
     \<and> PlayRateDeviation d + SpeedWarpDeviation d = d"
  by (auto simp add: PlayRateDeviation_def SpeedWarpDeviation_def max_def)


lemma GetRangePct_wide:
  assumes "SMALL_NUMBER < MaxV - MinV"
  shows "GetRangePct MinV MaxV v = (v - MinV) / (MaxV - MinV)"
proof -
  have "\<not> \<bar>MaxV - MinV\<bar> \<le> SMALL_NUMBER" using assms by linarith
  then show ?thesis by (simp add: GetRangePct_def Let_def)
qed

lemma StandingGait_closed:
  assumes "SMALL_NUMBER < WalkSpeed s" "SMALL_NUMBER < RunSpeed s - WalkSpeed s"
    "SMALL_NUMBER < SprintSpeed s - RunSpeed s"
  shows "fst (StandingGait (s\<lparr>GroundSpeed := g\<rparr>)) =
     min g (WalkSpeed s) / WalkSpeed s
     + max 0 (min g (RunSpeed s) - WalkSpeed s) / (RunSpeed s - WalkSpeed s)
     + max 0 (min g (SprintSpeed s) - RunSpeed s) / (SprintSpeed s - RunSpeed s)"
proof -
  have p: "0 < SMALL_NUMBER" by (simp add: SMALL_NUMBER_def)
  have w: "GetRangePct 0 (WalkSpeed s) g = g / WalkSpeed s"
    using GetRangePct_wide [where MinV = 0 and MaxV = "WalkSpeed s" and v = g] assms by simp
  note r = GetRangePct_wide [OF assms(2), where v = g] GetRangePct_wide [OF assms(3), where v = g]
  show ?thesis
    using assms p by (auto simp add: StandingGait_def Let_def w r min_def max_def)
qed

lemma CrouchedGait_closed:
  assumes "SMALL_NUMBER < WalkSpeedCrouched s"
    "SMALL_NUMBER < RunSpeedCrouched s - WalkSpeedCrouched s"
  shows "fst (CrouchedGait (s\<lparr>GroundSpeed := g\<rparr>)) =
     min g (WalkSpeedCrouched s) / WalkSpeedCrouched s
     + max 0 (min g (RunSpeedCrouched s) - WalkSpeedCrouched s)
         / (RunSpeedCrouched s - WalkSpeedCrouched s)"
proof -
  have p: "0 < SMALL_NUMBER" by (simp add: SMALL_NUMBER_def)
  have w: "GetRangePct 0 (WalkSpeedCrouched s) g = g / WalkSpeedCrouched s"
    using GetRangePct_wide [where MinV = 0 and MaxV = "WalkSpeedCrouched s" and v = g] assms by simp
  note r = GetRangePct_wide [OF assms(2), where v = g]
  show ?thesis
    using assms p by (auto simp add: CrouchedGait_def Let_def w r min_def max_def)
qed

lemma segment_slope:
  fixes a b g1 g2 w :: real
  assumes "0 < w" "g1 \<le> g2"
  shows "max 0 (min g2 b - a) / w - max 0 (min g1 b - a) / w \<le> (g2 - g1) / w"
proof -
  have "max 0 (min g2 b - a) - max 0 (min g1 b - a) \<le> g2 - g1"
    using assms by (auto simp add: min_def max_def)
  then have "(max 0 (min g2 b - a) - max 0 (min g1 b - a)) / w \<le> (g2 - g1) / w"
    using assms(1) by (simp add: divide_right_mono)
  then show ?thesis by (simp add: diff_divide_distrib)
qed

lemma first_slope:
  fixes b g1 g2 w :: real
  assumes "0 < w" "g1 \<le> g2"
  shows "min g2 b / w - min g1 b / w \<le> (g2 - g1) / w"
proof -
  have "min g2 b - min g1 b \<le> g2 - g1"
    using assms by (auto simp add: min_def)
  then have "(min g2 b - min g1 b) / w \<le> (g2 - g1) / w"
    using assms(1) by (simp add: divide_right_mono)
  then show ?thesis by (simp add: diff_divide_distrib)
qed

lemma StandingGait_lipschitz:
  assumes "SMALL_NUMBER < WalkSpeed s" "SMALL_NUMBER < RunSpeed s - WalkSpeed s"
    "SMALL_NUMBER < SprintSpeed s - RunSpeed s" "g1 \<le> g2"
  shows "fst (StandingGait (s\<lparr>GroundSpeed := g2\<rparr>)) - fst (StandingGait (s\<lparr>GroundSpeed := g1\<rparr>))
     \<le> (g2 - g1) * (1 / WalkSpeed s + 1 / (RunSpeed s - WalkSpeed s)
                       + 1 / (SprintSpeed s - RunSpeed s))"
proof -
  have p: "0 < SMALL_NUMBER" by (simp add: SMALL_NUMBER_def)
  have a: "min g2 (WalkSpeed s) / WalkSpeed s - min g1 (WalkSpeed s) / WalkSpeed s
      \<le> (g2 - g1) / WalkSpeed s"
    using first_slope [of "WalkSpeed s" g1 g2] assms p by simp
  have b: "max 0 (min g2 (RunSpeed s) - WalkSpeed s) / (RunSpeed s - WalkSpeed s)
      - max 0 (min g1 (RunSpeed s) - WalkSpeed s) / (RunSpeed s - WalkSpeed s)
      \<le> (g2 - g1) / (RunSpeed s - WalkSpeed s)"
    using segment_slope [of "RunSpeed s - WalkSpeed s" g1 g2] assms p by simp
  have c: "max 0 (min g2 (SprintSpeed s) - RunSpeed s) / (SprintSpeed s - RunSpeed s)
      - max 0 (min g1 (SprintSpeed s) - RunSpeed s) / (SprintSpeed s - RunSpeed s)
      \<le> (g2 - g1) / (SprintSpeed s - RunSpeed s)"
    using segment_slope [of "SprintSpeed s - RunSpeed s" g1 g2] assms p by simp
  show ?thesis
    unfolding StandingGait_closed [OF assms(1-3)]
    using a b c by (simp add: algebra_simps)
qed

lemma CrouchedGait_lipschitz:
  assumes "SMALL_NUMBER < WalkSpeedCrouched s"
    "SMALL_NUMBER < RunSpeedCrouched s - WalkSpeedCrouched s" "g1 \<le> g2"
  shows "fst (CrouchedGait (s\<lparr>GroundSpeed := g2\<rparr>)) - fst (CrouchedGait (s\<lparr>GroundSpeed := g1\<rparr>))
     \<le> (g2 - g1) * (1 / WalkSpeedCrouched s + 1 / (RunSpeedCrouched s - WalkSpeedCrouched s))"
proof -
  have p: "0 < SMALL_NUMBER" by (simp add: SMALL_NUMBER_def)
  have a: "min g2 (WalkSpeedCrouched s) / WalkSpeedCrouched s
      - min g1 (WalkSpeedCrouched s) / WalkSpeedCrouched s
      \<le> (g2 - g1) / WalkSpeedCrouched s"
    using first_slope [of "WalkSpeedCrouched s" g1 g2] assms p by simp
  have b: "max 0 (min g2 (RunSpeedCrouched s) - WalkSpeedCrouched s)
        / (RunSpeedCrouched s - WalkSpeedCrouched s)
      - max 0 (min g1 (RunSpeedCrouched s) - WalkSpeedCrouched s)
        / (RunSpeedCrouched s - WalkSpeedCrouched s)
      \<le> (g2 - g1) / (RunSpeedCrouched s - WalkSpeedCrouched s)"
    using segment_slope [of "RunSpeedCrouched s - WalkSpeedCrouched s" g1 g2] assms p by simp
  show ?thesis
    unfolding CrouchedGait_closed [OF assms(1-2)]
    using a b by (simp add: algebra_simps)
qed

lemma StandingGait_GroundSpeed:
  "StandingGait (NativeUpdateAnimation_GroundSpeed g s) = StandingGait (s\<lparr>GroundSpeed := g\<rparr>)"
  by (simp add: StandingGait_def NativeUpdateAnimation_GroundSpeed_def)

lemma CrouchedGait_GroundSpeed:
  "CrouchedGait (NativeUpdateAnimation_GroundSpeed g s) = CrouchedGait (s\<lparr>GroundSpeed := g\<rparr>)"
  by (simp add: CrouchedGait_def NativeUpdateAnimation_GroundSpeed_def)

lemma GroundSpeed_fields:
  "Anim_bIsMoving2D (NativeUpdateAnimation_GroundSpeed g s) = (1 / 100 < g)"
  "Anim_MovementMode (NativeUpdateAnimation_GroundSpeed g s) = Anim_MovementMode s"
  "Anim_bIsCrouched (NativeUpdateAnimation_GroundSpeed g s) = Anim_bIsCrouched s"
  "GaitScale (NativeUpdateAnimation_GroundSpeed g s) = GaitScale s"
  "GaitScaleCrouched (NativeUpdateAnimation_GroundSpeed g s) = GaitScaleCrouched s"
  by (simp_all add: NativeUpdateAnimation_GroundSpeed_def)

lemma GroundSpeed_GaitScale:
  "GaitScale (NativeUpdateGaitScale I fl (NativeUpdateAnimation_GroundSpeed g s) dt) =
     (if 1 / 100 < g
         \<and> (Anim_MovementMode s = MOVE_Walking \<or> Anim_MovementMode s = MOVE_NavWalking)
         \<and> \<not> Anim_bIsCrouched s
      then fst (StandingGait (s\<lparr>GroundSpeed := g\<rparr>)) else GaitScale s)"
  unfolding NativeUpdateGaitScale_GaitScale StandingGait_GroundSpeed GroundSpeed_fields ..

lemma GroundSpeed_GaitScaleCrouched:
  "GaitScaleCrouched (NativeUpdateGaitScale I fl (NativeUpdateAnimation_GroundSpeed g s) dt) =
     (if 1 / 100 < g
         \<and> (Anim_MovementMode s = MOVE_Walking \<or> Anim_MovementMode s = MOVE_NavWalking)
         \<and> Anim_bIsCrouched s
      then fst (CrouchedGait (s\<lparr>GroundSpeed := g\<rparr>)) else GaitScaleCrouched s)"
  unfolding NativeUpdateGaitScale_GaitScaleCrouched CrouchedGait_GroundSpeed GroundSpeed_fields ..


lemma NativeUpdateGaitScale_frame:
  "Anim_MovementMode (NativeUpdateGaitScale I fl s dt) = Anim_MovementMode s"
  "Anim_bIsCrouched (NativeUpdateGaitScale I fl s dt) = Anim_bIsCrouched s"
  "WalkSpeed (NativeUpdateGaitScale I fl s dt) = WalkSpeed s"
  "RunSpeed (NativeUpdateGaitScale I fl s dt) = RunSpeed s"
  "SprintSpeed (NativeUpdateGaitScale I fl s dt) = SprintSpeed s"
  by (simp_all add: NativeUpdateGaitScale_def Let_def split_beta)

lemma GroundSpeed_frame:
  "WalkSpeed (NativeUpdateAnimation_GroundSpeed g s) = WalkSpeed s"
  "RunSpeed (NativeUpdateAnimation_GroundSpeed g s) = RunSpeed s"
  "SprintSpeed (NativeUpdateAnimation_GroundSpeed g s) = SprintSpeed s"
  by (simp_all add: NativeUpdateAnimation_GroundSpeed_def)

lemma WalkingAnimInstance_fields:
  "Anim_MovementMode WalkingAnimInstance = MOVE_Walking"
  "\<not> Anim_bIsCrouched WalkingAnimInstance"
  "WalkSpeed WalkingAnimInstance = 165"
  "RunSpeed WalkingAnimInstance = 375"
  "SprintSpeed WalkingAnimInstance = 600"
  "GaitScale WalkingAnimInstance = 0"
  "GaitScaleCrouched WalkingAnimInstance = 0"
  by (simp_all add: WalkingAnimInstance_def AnimInstanceDefaults_def)

lemma CrouchingAnimInstance_fields:
  "Anim_MovementMode CrouchingAnimInstance = MOVE_Walking"
  "Anim_bIsCrouched CrouchingAnimInstance"
  "WalkSpeedCrouched CrouchingAnimInstance = 150"
  "RunSpeedCrouched CrouchingAnimInstance = 200"
  "GaitScale CrouchingAnimInstance = 0"
  "GaitScaleCrouched CrouchingAnimInstance = 0"
  by (simp_all add: CrouchingAnimInstance_def WalkingAnimInstance_def AnimInstanceDefaults_def)

lemma SprintedAnimInstance_fields:
  "Anim_MovementMode SprintedAnimInstance = MOVE_Walking"
  "\<not> Anim_bIsCrouched SprintedAnimInstance"
  "WalkSpeed SprintedAnimInstance = 165"
  "RunSpeed SprintedAnimInstance = 375"
  "SprintSpeed SprintedAnimInstance = 600"
  "GaitScale SprintedAnimInstance = 3"
  unfolding SprintedAnimInstance_def NativeUpdateGaitScale_frame GroundSpeed_fields
    GroundSpeed_frame GroundSpeed_GaitScale
  by (simp_all add: WalkingAnimInstance_fields StandingGait_def Let_def GetRangePct_def SMALL_NUMBER_def)

text \<open>
  C3, counterexample.  The gait scale is not a function of the ground speed alone at a ground
  speed of at most 0.01: \<open>bIsMoving2D\<close> is false there (line 136) and
  \<open>NativeUpdateGaitScale\<close> leaves \<open>GaitScale\<close> as the previous update wrote it
  (line 245).  After an update at the sprint speed the value is 3; an update at ground speed 0
  keeps 3, while an update at ground speed 100 gives 20/33, although 0 and 100 both lie in
  the band from 0 to the walk speed of 165 and 0 < 100.
\<close>

theorem gait_scale_stale_counterexample:
  "GaitScale SprintedAnimInstance = 3
   \<and> Anim_MovementMode SprintedAnimInstance = MOVE_Walking
   \<and> \<not> Anim_bIsCrouched SprintedAnimInstance
   \<and> WalkSpeed SprintedAnimInstance = 165
   \<and> GaitScale (NativeUpdateGaitScale InterpToTarget FlatFloor
         (NativeUpdateAnimation_GroundSpeed 0 SprintedAnimInstance) (1 / 60)) = 3
   \<and> GaitScale (NativeUpdateGaitScale InterpToTarget FlatFloor
         (NativeUpdateAnimation_GroundSpeed 100 SprintedAnimInstance) (1 / 60)) = 20 / 33"
  unfolding GroundSpeed_GaitScale
  by (simp add: SprintedAnimInstance_fields StandingGait_def GetRangePct_def SMALL_NUMBER_def)

text \<open>
  C3.  \<open>NativeUpdateGaitScale\<close> run on the ground speed of the frame
  (\<open>GroundSpeed = Velocity.Size2D()\<close>, \<open>bIsMoving2D = GroundSpeed > 0.01\<close>), for
  ground speeds 0 \<le> g1 \<le> g2:

  \<^item> the gait scale stays in [0,3] and the crouched gait scale in [0,2], whatever the ground
    speed, if they were there before;
  \<^item> at a ground speed of at most 0.01 both are left as they were;
  \<^item> for a standing character moving on ground at more than 0.01, with thresholds
    0.01 < walk < run < sprint, the gait scale is non-decreasing in the ground speed (within
    the bands and across them) and is 1 at the walk speed, 2 at the run speed and 3 at the
    sprint speed; when the bands walk..run and run..sprint are wider than the engine's
    \<open>SMALL_NUMBER\<close> it is the continuous piecewise-linear function
    min g walk / walk + max 0 (min g run - walk) / (run - walk)
    + max 0 (min g sprint - run) / (sprint - run), and the values at two ground speeds differ
    by at most their distance times (1 / walk + 1 / (run - walk) + 1 / (sprint - run)), so no
    threshold has a jump;
  \<^item> the same for the crouched gait scale of a crouched character, with the two crouched
    thresholds and the values 1 and 2.
\<close>

theorem gait_scale_of_ground_speed:
  assumes "0 \<le> g1" and "g1 \<le> g2"
  shows
    "(0 \<le> GaitScale s \<and> GaitScale s \<le> 3 \<longrightarrow>
        0 \<le> GaitScale (NativeUpdateGaitScale I fl (NativeUpdateAnimation_GroundSpeed g1 s) dt)
        \<and> GaitScale (NativeUpdateGaitScale I fl (NativeUpdateAnimation_GroundSpeed g1 s) dt) \<le> 3)
     \<and> (0 \<le> GaitScaleCrouched s \<and> GaitScaleCrouched s \<le> 2 \<longrightarrow>
        0 \<le> GaitScaleCrouched
              (NativeUpdateGaitScale I fl (NativeUpdateAnimation_GroundSpeed g1 s) dt)
        \<and> GaitScaleCrouched
              (NativeUpdateGaitScale I fl (NativeUpdateAnimation_GroundSpeed g1 s) dt) \<le> 2)
     \<and> (g1 \<le> 1 / 100 \<longrightarrow>
        GaitScale (NativeUpdateGaitScale I fl (NativeUpdateAnimation_GroundSpeed g1 s) dt)
          = GaitScale s
        \<and> GaitScaleCrouched
              (NativeUpdateGaitScale I fl (NativeUpdateAnimation_GroundSpeed g1 s) dt)
          = GaitScaleCrouched s)
     \<and> (1 / 100 < g1
        \<and> (Anim_MovementMode s = MOVE_Walking \<or> Anim_MovementMode s = MOVE_NavWalking)
        \<and> \<not> Anim_bIsCrouched s
        \<and> 1 / 100 < WalkSpeed s \<and> WalkSpeed s < RunSpeed s \<and> RunSpeed s < SprintSpeed s \<longrightarrow>
          GaitScale (NativeUpdateGaitScale I fl (NativeUpdateAnimation_GroundSpeed g1 s) dt)
            \<le> GaitScale (NativeUpdateGaitScale I fl (NativeUpdateAnimation_GroundSpeed g2 s) dt)
          \<and> GaitScale (NativeUpdateGaitScale I fl
                (NativeUpdateAnimation_GroundSpeed (WalkSpeed s) s) dt) = 1
          \<and> GaitScale (NativeUpdateGaitScale I fl
                (NativeUpdateAnimation_GroundSpeed (RunSpeed s) s) dt) = 2
          \<and> GaitScale (NativeUpdateGaitScale I fl
                (NativeUpdateAnimation_GroundSpeed (SprintSpeed s) s) dt) = 3
          \<and> (SMALL_NUMBER < RunSpeed s - WalkSpeed s
               \<and> SMALL_NUMBER < SprintSpeed s - RunSpeed s \<longrightarrow>
              GaitScale (NativeUpdateGaitScale I fl (NativeUpdateAnimation_GroundSpeed g1 s) dt)
                = min g1 (WalkSpeed s) / WalkSpeed s
                  + max 0 (min g1 (RunSpeed s) - WalkSpeed s) / (RunSpeed s - WalkSpeed s)
                  + max 0 (min g1 (SprintSpeed s) - RunSpeed s) / (SprintSpeed s - RunSpeed s)
              \<and> GaitScale (NativeUpdateGaitScale I fl
                    (NativeUpdateAnimation_GroundSpeed g2 s) dt)
                  - GaitScale (NativeUpdateGaitScale I fl
                    (NativeUpdateAnimation_GroundSpeed g1 s) dt)
                \<le> (g2 - g1) * (1 / WalkSpeed s + 1 / (RunSpeed s - WalkSpeed s)
                                 + 1 / (SprintSpeed s - RunSpeed s))))
     \<and> (1 / 100 < g1
        \<and> (Anim_MovementMode s = MOVE_Walking \<or> Anim_MovementMode s = MOVE_NavWalking)
        \<and> Anim_bIsCrouched s
        \<and> 1 / 100 < WalkSpeedCrouched s \<and> WalkSpeedCrouched s < RunSpeedCrouched s \<longrightarrow>
          GaitScaleCrouched
              (NativeUpdateGaitScale I fl (NativeUpdateAnimation_GroundSpeed g1 s) dt)
            \<le> GaitScaleCrouched
              (NativeUpdateGaitScale I fl (NativeUpdateAnimation_GroundSpeed g2 s) dt)
          \<and> GaitScaleCrouched (NativeUpdateGaitScale I fl
                (NativeUpdateAnimation_GroundSpeed (WalkSpeedCrouched s) s) dt) = 1
          \<and> GaitScaleCrouched (NativeUpdateGaitScale I fl
                (NativeUpdateAnimation_GroundSpeed (RunSpeedCrouched s) s) dt) = 2
          \<and> (SMALL_NUMBER < RunSpeedCrouched s - WalkSpeedCrouched s \<longrightarrow>
              GaitScaleCrouched
                  (NativeUpdateGaitScale I fl (NativeUpdateAnimation_GroundSpeed g1 s) dt)
                = min g1 (WalkSpeedCrouched s) / WalkSpeedCrouched s
                  + max 0 (min g1 (RunSpeedCrouched s) - WalkSpeedCrouched s)
                      / (RunSpeedCrouched s - WalkSpeedCrouched s)
              \<and> GaitScaleCrouched (NativeUpdateGaitScale I fl
                    (NativeUpdateAnimation_GroundSpeed g2 s) dt)
                  - GaitScaleCrouched (NativeUpdateGaitScale I fl
                    (NativeUpdateAnimation_GroundSpeed g1 s) dt)
                \<le> (g2 - g1) * (1 / WalkSpeedCrouched s
                                 + 1 / (RunSpeedCrouched s - WalkSpeedCrouched s))))"
proof (intro conjI impI)
  have gs: "0 \<le> GroundSpeed (s\<lparr>GroundSpeed := g1\<rparr>)" using assms by simp
  assume r: "0 \<le> GaitScale s \<and> GaitScale s \<le> 3"
  show "0 \<le> GaitScale (NativeUpdateGaitScale I fl (NativeUpdateAnimation_GroundSpeed g1 s) dt)"
    using r StandingGait_range [OF gs] by (simp add: GroundSpeed_GaitScale)
  show "GaitScale (NativeUpdateGaitScale I fl (NativeUpdateAnimation_GroundSpeed g1 s) dt) \<le> 3"
    using r StandingGait_range [OF gs] by (simp add: GroundSpeed_GaitScale)
next
  have gs: "0 \<le> GroundSpeed (s\<lparr>GroundSpeed := g1\<rparr>)" using assms by simp
  assume r: "0 \<le> GaitScaleCrouched s \<and> GaitScaleCrouched s \<le> 2"
  show "0 \<le> GaitScaleCrouched
              (NativeUpdateGaitScale I fl (NativeUpdateAnimation_GroundSpeed g1 s) dt)"
    using r CrouchedGait_range [OF gs] by (simp add: GroundSpeed_GaitScaleCrouched)
  show "GaitScaleCrouched
              (NativeUpdateGaitScale I fl (NativeUpdateAnimation_GroundSpeed g1 s) dt) \<le> 2"
    using r CrouchedGait_range [OF gs] by (simp add: GroundSpeed_GaitScaleCrouched)
next
  assume "g1 \<le> 1 / 100"
  then show "GaitScale (NativeUpdateGaitScale I fl (NativeUpdateAnimation_GroundSpeed g1 s) dt)
          = GaitScale s"
    and "GaitScaleCrouched
              (NativeUpdateGaitScale I fl (NativeUpdateAnimation_GroundSpeed g1 s) dt)
          = GaitScaleCrouched s"
    by (simp_all add: GroundSpeed_GaitScale GroundSpeed_GaitScaleCrouched)
next
  assume c: "1 / 100 < g1
        \<and> (Anim_MovementMode s = MOVE_Walking \<or> Anim_MovementMode s = MOVE_NavWalking)
        \<and> \<not> Anim_bIsCrouched s
        \<and> 1 / 100 < WalkSpeed s \<and> WalkSpeed s < RunSpeed s \<and> RunSpeed s < SprintSpeed s"
  have p: "SMALL_NUMBER < WalkSpeed s" using c by (simp add: SMALL_NUMBER_def)
  show "GaitScale (NativeUpdateGaitScale I fl (NativeUpdateAnimation_GroundSpeed g1 s) dt)
            \<le> GaitScale (NativeUpdateGaitScale I fl (NativeUpdateAnimation_GroundSpeed g2 s) dt)"
    using c StandingGait_mono [of s g1 g2] assms by (simp add: GroundSpeed_GaitScale)
  show "GaitScale (NativeUpdateGaitScale I fl
                (NativeUpdateAnimation_GroundSpeed (WalkSpeed s) s) dt) = 1"
    using c by (simp add: GroundSpeed_GaitScale StandingGait_def GetRangePct_at_max)
  show "GaitScale (NativeUpdateGaitScale I fl
                (NativeUpdateAnimation_GroundSpeed (RunSpeed s) s) dt) = 2"
    using c by (simp add: GroundSpeed_GaitScale StandingGait_def GetRangePct_at_max)
  show "GaitScale (NativeUpdateGaitScale I fl
                (NativeUpdateAnimation_GroundSpeed (SprintSpeed s) s) dt) = 3"
    using c by (simp add: GroundSpeed_GaitScale StandingGait_def GetRangePct_at_max)
  assume w: "SMALL_NUMBER < RunSpeed s - WalkSpeed s
               \<and> SMALL_NUMBER < SprintSpeed s - RunSpeed s"
  have w2: "SMALL_NUMBER < RunSpeed s - WalkSpeed s" and w3: "SMALL_NUMBER < SprintSpeed s - RunSpeed s"
    using w by simp_all
  show "GaitScale (NativeUpdateGaitScale I fl (NativeUpdateAnimation_GroundSpeed g1 s) dt)
                = min g1 (WalkSpeed s) / WalkSpeed s
                  + max 0 (min g1 (RunSpeed s) - WalkSpeed s) / (RunSpeed s - WalkSpeed s)
                  + max 0 (min g1 (SprintSpeed s) - RunSpeed s) / (SprintSpeed s - RunSpeed s)"
    using c StandingGait_closed [OF p w2 w3, of g1] by (simp add: GroundSpeed_GaitScale)
  show "GaitScale (NativeUpdateGaitScale I fl
                    (NativeUpdateAnimation_GroundSpeed g2 s) dt)
                  - GaitScale (NativeUpdateGaitScale I fl
                    (NativeUpdateAnimation_GroundSpeed g1 s) dt)
                \<le> (g2 - g1) * (1 / WalkSpeed s + 1 / (RunSpeed s - WalkSpeed s)
                                 + 1 / (SprintSpeed s - RunSpeed s))"
    using c assms StandingGait_lipschitz [OF p w2 w3 assms(2)]
    by (simp add: GroundSpeed_GaitScale)
next
  assume c: "1 / 100 < g1
        \<and> (Anim_MovementMode s = MOVE_Walking \<or> Anim_MovementMode s = MOVE_NavWalking)
        \<and> Anim_bIsCrouched s
        \<and> 1 / 100 < WalkSpeedCrouched s \<and> WalkSpeedCrouched s < RunSpeedCrouched s"
  have p: "SMALL_NUMBER < WalkSpeedCrouched s" using c by (simp add: SMALL_NUMBER_def)
  show "GaitScaleCrouched
              (NativeUpdateGaitScale I fl (NativeUpdateAnimation_GroundSpeed g1 s) dt)
            \<le> GaitScaleCrouched
              (NativeUpdateGaitScale I fl (NativeUpdateAnimation_GroundSpeed g2 s) dt)"
    using c CrouchedGait_mono [of s g1 g2] assms by (simp add: GroundSpeed_GaitScaleCrouched)
  show "GaitScaleCrouched (NativeUpdateGaitScale I fl
                (NativeUpdateAnimation_GroundSpeed (WalkSpeedCrouched s) s) dt) = 1"
    using c by (simp add: GroundSpeed_GaitScaleCrouched CrouchedGait_def GetRangePct_at_max)
  show "GaitScaleCrouched (NativeUpdateGaitScale I fl
                (NativeUpdateAnimation_GroundSpeed (RunSpeedCrouched s) s) dt) = 2"
    using c by (simp add: GroundSpeed_GaitScaleCrouched CrouchedGait_def GetRangePct_at_max)
  assume w2: "SMALL_NUMBER < RunSpeedCrouched s - WalkSpeedCrouched s"
  show "GaitScaleCrouched
                  (NativeUpdateGaitScale I fl (NativeUpdateAnimation_GroundSpeed g1 s) dt)
                = min g1 (WalkSpeedCrouched s) / WalkSpeedCrouched s
                  + max 0 (min g1 (RunSpeedCrouched s) - WalkSpeedCrouched s)
                      / (RunSpeedCrouched s - WalkSpeedCrouched s)"
    using c CrouchedGait_closed [OF p w2, of g1] by (simp add: GroundSpeed_GaitScaleCrouched)
  show "GaitScaleCrouched (NativeUpdateGaitScale I fl
                    (NativeUpdateAnimation_GroundSpeed g2 s) dt)
                  - GaitScaleCrouched (NativeUpdateGaitScale I fl
                    (NativeUpdateAnimation_GroundSpeed g1 s) dt)
                \<le> (g2 - g1) * (1 / WalkSpeedCrouched s
                                 + 1 / (RunSpeedCrouched s - WalkSpeedCrouched s))"
    using c assms CrouchedGait_lipschitz [OF p w2 assms(2)]
    by (simp add: GroundSpeed_GaitScaleCrouched)
qed


theorem gait_scale_of_ground_speed_witness:
  "(0::real) \<le> 100 \<and> (100::real) \<le> 400 \<and> (1::real) / 100 < 100
   \<and> 0 \<le> GaitScale WalkingAnimInstance \<and> GaitScale WalkingAnimInstance \<le> 3
   \<and> Anim_MovementMode WalkingAnimInstance = MOVE_Walking
   \<and> \<not> Anim_bIsCrouched WalkingAnimInstance
   \<and> 1 / 100 < WalkSpeed WalkingAnimInstance
   \<and> WalkSpeed WalkingAnimInstance < RunSpeed WalkingAnimInstance
   \<and> RunSpeed WalkingAnimInstance < SprintSpeed WalkingAnimInstance
   \<and> SMALL_NUMBER < RunSpeed WalkingAnimInstance - WalkSpeed WalkingAnimInstance
   \<and> SMALL_NUMBER < SprintSpeed WalkingAnimInstance - RunSpeed WalkingAnimInstance
   \<and> GaitScale (NativeUpdateGaitScale InterpToTarget FlatFloor
         (NativeUpdateAnimation_GroundSpeed 100 WalkingAnimInstance) (1 / 60)) = 20 / 33
   \<and> GaitScale (NativeUpdateGaitScale InterpToTarget FlatFloor
         (NativeUpdateAnimation_GroundSpeed 100 WalkingAnimInstance) (1 / 60))
      \<le> GaitScale (NativeUpdateGaitScale InterpToTarget FlatFloor
         (NativeUpdateAnimation_GroundSpeed 400 WalkingAnimInstance) (1 / 60))
   \<and> GaitScale (NativeUpdateGaitScale InterpToTarget FlatFloor
         (NativeUpdateAnimation_GroundSpeed 400 WalkingAnimInstance) (1 / 60))
       - GaitScale (NativeUpdateGaitScale InterpToTarget FlatFloor
         (NativeUpdateAnimation_GroundSpeed 100 WalkingAnimInstance) (1 / 60))
      \<le> (400 - 100) * (1 / 165 + 1 / (375 - 165) + 1 / (600 - 375))
   \<and> GaitScale (NativeUpdateGaitScale InterpToTarget FlatFloor
         (NativeUpdateAnimation_GroundSpeed 165 WalkingAnimInstance) (1 / 60)) = 1
   \<and> GaitScale (NativeUpdateGaitScale InterpToTarget FlatFloor
         (NativeUpdateAnimation_GroundSpeed 375 WalkingAnimInstance) (1 / 60)) = 2
   \<and> GaitScale (NativeUpdateGaitScale InterpToTarget FlatFloor
         (NativeUpdateAnimation_GroundSpeed 600 WalkingAnimInstance) (1 / 60)) = 3
   \<and> (0::real) \<le> 1 / 100
   \<and> GaitScale (NativeUpdateGaitScale InterpToTarget FlatFloor
         (NativeUpdateAnimation_GroundSpeed 0 WalkingAnimInstance) (1 / 60))
      = GaitScale WalkingAnimInstance
   \<and> 0 \<le> GaitScaleCrouched CrouchingAnimInstance \<and> GaitScaleCrouched CrouchingAnimInstance \<le> 2
   \<and> Anim_MovementMode CrouchingAnimInstance = MOVE_Walking
   \<and> Anim_bIsCrouched CrouchingAnimInstance
   \<and> 1 / 100 < WalkSpeedCrouched CrouchingAnimInstance
   \<and> WalkSpeedCrouched CrouchingAnimInstance < RunSpeedCrouched CrouchingAnimInstance
   \<and> SMALL_NUMBER < RunSpeedCrouched CrouchingAnimInstance - WalkSpeedCrouched CrouchingAnimInstance
   \<and> GaitScaleCrouched (NativeUpdateGaitScale InterpToTarget FlatFloor
         (NativeUpdateAnimation_GroundSpeed 100 CrouchingAnimInstance) (1 / 60)) = 2 / 3
   \<and> GaitScaleCrouched (NativeUpdateGaitScale InterpToTarget FlatFloor
         (NativeUpdateAnimation_GroundSpeed 100 CrouchingAnimInstance) (1 / 60))
      \<le> GaitScaleCrouched (NativeUpdateGaitScale InterpToTarget FlatFloor
         (NativeUpdateAnimation_GroundSpeed 400 CrouchingAnimInstance) (1 / 60))
   \<and> GaitScaleCrouched (NativeUpdateGaitScale InterpToTarget FlatFloor
         (NativeUpdateAnimation_GroundSpeed 400 CrouchingAnimInstance) (1 / 60))
       - GaitScaleCrouched (NativeUpdateGaitScale InterpToTarget FlatFloor
         (NativeUpdateAnimation_GroundSpeed 100 CrouchingAnimInstance) (1 / 60))
      \<le> (400 - 100) * (1 / 150 + 1 / (200 - 150))
   \<and> GaitScaleCrouched (NativeUpdateGaitScale InterpToTarget FlatFloor
         (NativeUpdateAnimation_GroundSpeed 150 CrouchingAnimInstance) (1 / 60)) = 1
   \<and> GaitScaleCrouched (NativeUpdateGaitScale InterpToTarget FlatFloor
         (NativeUpdateAnimation_GroundSpeed 200 CrouchingAnimInstance) (1 / 60)) = 2"
proof -
  have h: "(0::real) \<le> 100" "(100::real) \<le> 400" by simp_all
  have z: "(0::real) \<le> 0" "(0::real) \<le> 100" by simp_all
  have n: "SMALL_NUMBER = 1 / 100000000" by (simp add: SMALL_NUMBER_def)
  show ?thesis
    using
      gait_scale_of_ground_speed [OF h, of WalkingAnimInstance InterpToTarget FlatFloor "1 / 60"]
      gait_scale_of_ground_speed [OF h, of CrouchingAnimInstance InterpToTarget FlatFloor "1 / 60"]
      gait_scale_of_ground_speed [OF z, of WalkingAnimInstance InterpToTarget FlatFloor "1 / 60"]
    by (simp add: WalkingAnimInstance_fields CrouchingAnimInstance_fields n)
qed

text \<open>
  C4.  For an animation speed scale \<open>a\<close> in [0,1), so that the deviation \<open>a - 1\<close> lies in
  [-1,0), the play rate deviation is at least -0.15, the speed warp deviation is at least
  -0.85, and the two add up to the deviation.  Both the crouched and the standing path store
  one plus the play rate deviation as play rate (the standing one before the slope
  adjustment, which a level floor skips) and interpolate the speed warp scale towards one
  plus the speed warp deviation.
\<close>

theorem play_rate_speed_warp_split:
  assumes "Anim_bIsMoving2D s"
    and "Anim_MovementMode s = MOVE_Walking \<or> Anim_MovementMode s = MOVE_NavWalking"
    and "a = (if Anim_bIsCrouched s then fst (snd (CrouchedGait s)) else fst (snd (StandingGait s)))"
    and "0 \<le> a" and "a < 1"
  shows
    "- (15 / 100) \<le> PlayRateDeviation (a - 1)
     \<and> - (85 / 100) \<le> SpeedWarpDeviation (a - 1)
     \<and> PlayRateDeviation (a - 1) + SpeedWarpDeviation (a - 1) = a - 1
     \<and> (Anim_bIsCrouched s \<longrightarrow>
          PlayRateWalkCrouched (NativeUpdateGaitScale I fl s dt) = 1 + PlayRateDeviation (a - 1))
     \<and> (\<not> Anim_bIsCrouched s \<and> 1 - KINDA_SMALL_NUMBER \<le> FloorNormalZ fl \<longrightarrow>
          PlayRateWalk (NativeUpdateGaitScale I fl s dt) = 1 + PlayRateDeviation (a - 1))
     \<and> SpeedWarpScale (NativeUpdateGaitScale I fl s dt)
         = I (SpeedWarpScale s) (1 + SpeedWarpDeviation (a - 1)) dt
             (GetMappedRangeValueUnclamped 1 3 100 10 (GaitScale (NativeUpdateGaitScale I fl s dt)))"
proof -
  have d: "- 1 \<le> a - 1" using assms by simp
  have p: "PlayRateAndSpeedWarp a = (1 + PlayRateDeviation (a - 1), 1 + SpeedWarpDeviation (a - 1))"
    using assms(5) by (simp add: PlayRateAndSpeedWarp_def Let_def)
  have 1: "Anim_bIsCrouched s \<longrightarrow>
          PlayRateWalkCrouched (NativeUpdateGaitScale I fl s dt) = 1 + PlayRateDeviation (a - 1)"
    using assms(1,2,3) p by (cases "Anim_bIsCrouched s") (simp_all add: NativeUpdateGaitScale_def Let_def split_beta)
  have 2: "\<not> Anim_bIsCrouched s \<and> 1 - KINDA_SMALL_NUMBER \<le> FloorNormalZ fl \<longrightarrow>
          PlayRateWalk (NativeUpdateGaitScale I fl s dt) = 1 + PlayRateDeviation (a - 1)"
    using assms(1,2,3) p by (cases "Anim_bIsCrouched s") (simp_all add: NativeUpdateGaitScale_def Let_def split_beta)
  have 3: "SpeedWarpScale (NativeUpdateGaitScale I fl s dt)
         = I (SpeedWarpScale s) (1 + SpeedWarpDeviation (a - 1)) dt
             (GetMappedRangeValueUnclamped 1 3 100 10 (GaitScale (NativeUpdateGaitScale I fl s dt)))"
    using assms(1,2,3) p by (cases "Anim_bIsCrouched s") (simp_all add: NativeUpdateGaitScale_def Let_def split_beta)
  show ?thesis using split_dev [OF d] 1 2 3 by simp
qed

theorem play_rate_speed_warp_split_witness:
  "Anim_bIsMoving2D (WalkingAnimInstance\<lparr>GroundSpeed := 60\<rparr>)
   \<and> Anim_MovementMode (WalkingAnimInstance\<lparr>GroundSpeed := 60\<rparr>) = MOVE_Walking
   \<and> fst (snd (StandingGait (WalkingAnimInstance\<lparr>GroundSpeed := 60\<rparr>))) = 4 / 10
   \<and> PlayRateDeviation (4 / 10 - 1) = - (15 / 100)
   \<and> SpeedWarpDeviation (4 / 10 - 1) = - (45 / 100)
   \<and> PlayRateDeviation (4 / 10 - 1) + SpeedWarpDeviation (4 / 10 - 1) = 4 / 10 - 1
   \<and> PlayRateWalk (NativeUpdateGaitScale InterpToTarget FlatFloor
        (WalkingAnimInstance\<lparr>GroundSpeed := 60\<rparr>) (1 / 60)) = 1 + PlayRateDeviation (4 / 10 - 1)"
proof -
  let ?s = "WalkingAnimInstance\<lparr>GroundSpeed := 60\<rparr>"
  have h1: "Anim_bIsMoving2D ?s"
    by (simp add: WalkingAnimInstance_def AnimInstanceDefaults_def)
  have h2: "Anim_MovementMode ?s = MOVE_Walking \<or> Anim_MovementMode ?s = MOVE_NavWalking"
    by (simp add: WalkingAnimInstance_def AnimInstanceDefaults_def)
  have h3: "4 / 10 = (if Anim_bIsCrouched ?s then fst (snd (CrouchedGait ?s))
                      else fst (snd (StandingGait ?s)))"
    by (simp add: WalkingAnimInstance_def AnimInstanceDefaults_def StandingGait_def)
  have h4: "(0::real) \<le> 4 / 10" "(4 / 10 :: real) < 1" by simp_all
  have v: "PlayRateDeviation (4 / 10 - 1) = - (15 / 100)"
          "SpeedWarpDeviation (4 / 10 - 1) = - (45 / 100)"
    by (simp_all add: PlayRateDeviation_def SpeedWarpDeviation_def)
  have c: "\<not> Anim_bIsCrouched ?s" "Anim_MovementMode ?s = MOVE_Walking"
    by (simp_all add: WalkingAnimInstance_def AnimInstanceDefaults_def)
  show ?thesis
    using h1 c h3 v play_rate_speed_warp_split
      [OF h1 h2 h3 h4, of InterpToTarget FlatFloor "1 / 60"]
    by (simp add: FlatFloor_def KINDA_SMALL_NUMBER_def)
qed
section \<open>Quantized replication: round trip\<close>

lemma packed_component_roundtrip:
  assumes S: "0 < S" and b: "\<bar>x\<bar> \<le> 2 ^ B / of_int S"
  shows "\<bar>ReadPackedComponent S (WritePackedComponent S B x) - x\<bar> \<le> 1 / of_int S"
proof -
  let ?y = "x * of_int S"
  let ?n = "WritePackedComponent S B x"
  have Sr: "0 < (of_int S :: real)" using S by simp
  have yb: "\<bar>?y\<bar> \<le> 2 ^ B"
  proof -
    have "\<bar>?y\<bar> = \<bar>x\<bar> * of_int S" using Sr by (simp add: abs_mult)
    also have "\<dots> \<le> 2 ^ B / of_int S * of_int S"
      using b Sr by (intro mult_right_mono) simp_all
    also have "\<dots> = 2 ^ B" using Sr by simp
    finally show ?thesis .
  qed
  let ?f = "\<lfloor>?y + 1 / 2\<rfloor>"
  have f1: "of_int ?f \<le> ?y + 1 / 2" by (rule of_int_floor_le)
  have f2: "?y + 1 / 2 < of_int ?f + 1" by linarith
  have flo: "- (2 ^ B) \<le> ?f"
  proof -
    have "(of_int (- (2 ^ B)) :: real) \<le> ?y + 1 / 2" using yb by simp
    then show ?thesis by (simp only: le_floor_iff)
  qed
  have fhi: "?f \<le> 2 ^ B"
  proof -
    have "?y + 1 / 2 < of_int (2 ^ B + 1 :: int)" using yb by simp
    then have "?f < 2 ^ B + 1" by (simp only: floor_less_iff)
    then show ?thesis by simp
  qed
  have pw: "(1::int) \<le> 2 ^ B" by simp
  have n: "?n = (if ?f = 2 ^ B then 2 ^ B - 1 else ?f)"
    using flo fhi pw unfolding WritePackedComponent_def by (auto simp add: max_def min_def)
  have "\<bar>of_int ?n - ?y\<bar> \<le> 1"
  proof (cases "?f = 2 ^ B")
    case True
    then have "of_int ?n = (2 ^ B - 1 :: real)" using n by simp
    moreover have "(2 ^ B :: real) \<le> ?y + 1 / 2" using f1 True by simp
    ultimately show ?thesis using yb by linarith
  next
    case False
    then have "(of_int ?n :: real) = of_int ?f" using n by simp
    then show ?thesis using f1 f2 by linarith
  qed
  then have "\<bar>of_int ?n - ?y\<bar> / of_int S \<le> 1 / of_int S"
    using Sr by (simp add: divide_right_mono)
  moreover have "ReadPackedComponent S ?n - x = (of_int ?n - ?y) / of_int S"
    using Sr by (simp add: ReadPackedComponent_def field_simps)
  ultimately show ?thesis using Sr by simp
qed

lemma packed_component_bounded:
  assumes S: "0 < S"
  shows "\<bar>ReadPackedComponent S (WritePackedComponent S B x)\<bar> \<le> 2 ^ B / of_int S"
proof -
  let ?n = "WritePackedComponent S B x"
  have pw: "(1::int) \<le> 2 ^ B" by simp
  have "- (2 ^ B) \<le> ?n" "?n \<le> 2 ^ B"
    using pw unfolding WritePackedComponent_def by (auto simp add: max_def min_def)
  then have "\<bar>?n\<bar> \<le> 2 ^ B" by simp
  then have "\<bar>of_int ?n :: real\<bar> \<le> 2 ^ B"
    by (metis of_int_abs of_int_le_iff of_int_numeral of_int_power)
  then show ?thesis using S by (simp add: ReadPackedComponent_def divide_right_mono)
qed

lemma QuantizationParameters_facts:
  "0 < fst (QuantizationParameters L)"
  "1 / of_int (fst (QuantizationParameters L)) = QuantizationPrecision L"
  "2 ^ snd (QuantizationParameters L) / of_int (fst (QuantizationParameters L))
     = QuantizationMaxMagnitude L"
  by (cases L; simp add: QuantizationParameters_def QuantizationPrecision_def
        QuantizationMaxMagnitude_def)+

lemma quantized_vector_roundtrip:
  assumes "VectorBounded (QuantizationMaxMagnitude L) v"
  shows "VectorWithin (QuantizationPrecision L) (LoadQuantizedVector L (SaveQuantizedVector L v)) v"
proof -
  obtain S B where p: "QuantizationParameters L = (S, B)" by (cases "QuantizationParameters L")
  have S: "0 < S" and pr: "1 / of_int S = QuantizationPrecision L"
    and mx: "2 ^ B / of_int S = QuantizationMaxMagnitude L"
    using QuantizationParameters_facts [of L] p by simp_all
  show ?thesis
    using assms packed_component_roundtrip [OF S, of _ B]
    unfolding VectorWithin_def VectorBounded_def LoadQuantizedVector_def SaveQuantizedVector_def
      p WritePackedVector_def ReadPackedVector_def pr [symmetric] mx [symmetric]
    by simp
qed

lemma quantized_vector_bounded:
  "VectorBounded (QuantizationMaxMagnitude L) (LoadQuantizedVector L (SaveQuantizedVector L v))"
proof -
  obtain S B where p: "QuantizationParameters L = (S, B)" by (cases "QuantizationParameters L")
  have S: "0 < S" and mx: "2 ^ B / of_int S = QuantizationMaxMagnitude L"
    using QuantizationParameters_facts [of L] p by simp_all
  show ?thesis
    using packed_component_bounded [OF S, of B]
    unfolding VectorBounded_def LoadQuantizedVector_def SaveQuantizedVector_def
      p WritePackedVector_def ReadPackedVector_def mx [symmetric]
    by simp
qed

text \<open>
  C8.  Writing and then reading a snapshot reproduces a location and a velocity whose
  components lie within the maximum magnitude of their quantization level to within the
  precision of that level in every component: 1 for whole numbers, 0.1 for one decimal and
  0.01 for two decimals.  What is read never exceeds the maximum magnitude of the level
  (2^30 / 100 for two decimals), whatever was written.
\<close>

theorem quantized_snapshot_roundtrip:
  assumes "VectorBounded (QuantizationMaxMagnitude (LocationQuantizationLevel m)) (Rep_Location m)"
    and "VectorBounded (QuantizationMaxMagnitude (VelocityQuantizationLevel m)) (Rep_Velocity m)"
  shows
    "VectorWithin (QuantizationPrecision (LocationQuantizationLevel m))
       (Rep_Location (NetSerializeRoundTrip RotatorCodec FixedVectorCodec m)) (Rep_Location m)
     \<and> VectorWithin (QuantizationPrecision (VelocityQuantizationLevel m))
       (Rep_Velocity (NetSerializeRoundTrip RotatorCodec FixedVectorCodec m)) (Rep_Velocity m)
     \<and> VectorBounded (QuantizationMaxMagnitude (LocationQuantizationLevel m))
       (Rep_Location (NetSerializeRoundTrip RotatorCodec FixedVectorCodec m))
     \<and> VectorBounded (QuantizationMaxMagnitude (VelocityQuantizationLevel m))
       (Rep_Velocity (NetSerializeRoundTrip RotatorCodec FixedVectorCodec m))
     \<and> QuantizationPrecision RoundWholeNumber = 1
     \<and> QuantizationPrecision RoundOneDecimal = 1 / 10
     \<and> QuantizationPrecision RoundTwoDecimals = 1 / 100
     \<and> QuantizationMaxMagnitude RoundTwoDecimals = 2 ^ 30 / 100"
  using quantized_vector_roundtrip [OF assms(1)] quantized_vector_roundtrip [OF assms(2)]
    quantized_vector_bounded [of "LocationQuantizationLevel m" "Rep_Location m"]
    quantized_vector_bounded [of "VelocityQuantizationLevel m" "Rep_Velocity m"]
  by (simp add: NetSerializeRoundTrip_def QuantizationPrecision_def QuantizationMaxMagnitude_def
        QuantizationParameters_def)

lemma ExampleSnapshot_roundtrip:
  "Rep_Location (NetSerializeRoundTrip (\<lambda>q r. r) (\<lambda>v. v) ExampleSnapshot) = FVector 1235 (- 79) 0
   \<and> Rep_Velocity (NetSerializeRoundTrip (\<lambda>q r. r) (\<lambda>v. v) ExampleSnapshot) = FVector 300 0 0"
  by (simp add: NetSerializeRoundTrip_def ExampleSnapshot_def LoadQuantizedVector_def
        SaveQuantizedVector_def QuantizationParameters_def WritePackedVector_def
        ReadPackedVector_def WritePackedComponent_def ReadPackedComponent_def)

theorem quantized_snapshot_roundtrip_witness:
  "VectorBounded (QuantizationMaxMagnitude (LocationQuantizationLevel ExampleSnapshot))
     (Rep_Location ExampleSnapshot)
   \<and> VectorBounded (QuantizationMaxMagnitude (VelocityQuantizationLevel ExampleSnapshot))
     (Rep_Velocity ExampleSnapshot)
   \<and> VectorWithin (QuantizationPrecision (LocationQuantizationLevel ExampleSnapshot))
       (Rep_Location (NetSerializeRoundTrip (\<lambda>q r. r) (\<lambda>v. v) ExampleSnapshot))
       (Rep_Location ExampleSnapshot)
   \<and> VectorWithin (QuantizationPrecision (VelocityQuantizationLevel ExampleSnapshot))
       (Rep_Velocity (NetSerializeRoundTrip (\<lambda>q r. r) (\<lambda>v. v) ExampleSnapshot))
       (Rep_Velocity ExampleSnapshot)
   \<and> Rep_Location (NetSerializeRoundTrip (\<lambda>q r. r) (\<lambda>v. v) ExampleSnapshot)
       = FVector 1235 (- 79) 0"
proof -
  have h1: "VectorBounded (QuantizationMaxMagnitude (LocationQuantizationLevel ExampleSnapshot))
     (Rep_Location ExampleSnapshot)"
    by (simp add: VectorBounded_def QuantizationMaxMagnitude_def QuantizationParameters_def
          ExampleSnapshot_def)
  have h2: "VectorBounded (QuantizationMaxMagnitude (VelocityQuantizationLevel ExampleSnapshot))
     (Rep_Velocity ExampleSnapshot)"
    by (simp add: VectorBounded_def QuantizationMaxMagnitude_def QuantizationParameters_def
          ExampleSnapshot_def)
  show ?thesis
    using h1 h2 ExampleSnapshot_roundtrip
      quantized_snapshot_roundtrip [OF h1 h2, of "\<lambda>q r. r" "\<lambda>v. v"]
    by blast
qed

section \<open>Pivot turn direction\<close>

lemma NativeUpdatePivotTurn_direction:
  "PivotTurnStarts s m v \<Longrightarrow>
     PivotTurnDirection (NativeUpdatePivotTurn s m v) = PivotTurnDirectionOf (Anim_MovementDrift s)"
  by (auto simp add: NativeUpdatePivotTurn_def PivotTurnStarts_def Let_def)

text \<open>
  C5.  When a pivot turn starts, the direction stored by \<open>NativeUpdatePivotTurn\<close> depends on
  the movement drift only (not on the direction stored before): a drift of 40 gives North,
  140 South, 90 East, -40 North, -140 South and -90 West, and the boundary angles have one
  fixed answer each: 50 and 130 give East, -50 and -130 give West.
\<close>

theorem pivot_turn_direction_classification:
  "PivotTurnStarts s m v \<Longrightarrow>
     PivotTurnDirection (NativeUpdatePivotTurn s m v) = PivotTurnDirectionOf (Anim_MovementDrift s)
     \<and> PivotTurnDirectionOf 40 = North
     \<and> PivotTurnDirectionOf 140 = South
     \<and> PivotTurnDirectionOf 90 = East
     \<and> PivotTurnDirectionOf (- 40) = North
     \<and> PivotTurnDirectionOf (- 140) = South
     \<and> PivotTurnDirectionOf (- 90) = West
     \<and> PivotTurnDirectionOf 50 = East
     \<and> PivotTurnDirectionOf 130 = East
     \<and> PivotTurnDirectionOf (- 50) = West
     \<and> PivotTurnDirectionOf (- 130) = West"
  using NativeUpdatePivotTurn_direction [of s m v]
  by (simp add: PivotTurnDirectionOf_def)

theorem pivot_turn_direction_classification_witness:
  "PivotTurnStarts (AnimInstanceDefaults\<lparr>Anim_MovementDrift := 140\<rparr>) True ZeroVector
   \<and> PivotTurnDirection
        (NativeUpdatePivotTurn (AnimInstanceDefaults\<lparr>Anim_MovementDrift := 140\<rparr>) True ZeroVector)
      = South"
proof -
  have h: "PivotTurnStarts (AnimInstanceDefaults\<lparr>Anim_MovementDrift := 140\<rparr>) True ZeroVector"
    by (simp add: PivotTurnStarts_def AnimInstanceDefaults_def)
  show ?thesis
    using h pivot_turn_direction_classification
      [OF h]
    by (simp add: AnimInstanceDefaults_def)
qed

end
